theory Spec2Isabelle
  imports Complex_Main "HOL-Library.Char_ord" "HOL-Library.List_Lexorder"
begin

section \<open>Data model\<close>

text \<open>
  The canonical table that \<^verbatim>\<open>fast_api.py\<close> builds and \<^verbatim>\<open>main.py\<close> labels is a pandas
  DataFrame. A text column holds strings or NaN (\<open>None\<close>); a numeric column holds a
  float or NaN (\<open>None\<close>). Floats are finite reals; infinities and signed zeros of
  float64 are outside the model. The detector is given twice: with exact arithmetic, and
  with a rounding function after every arithmetic step, as float64 computes. Strings are
  \<open>char list\<close>, so only ASCII whitespace and ASCII letters are given a meaning below.
\<close>

record measurement =
  Country_Code :: "string option"
  Country_Label :: "string option"
  City :: "string option"
  Location :: "string option"
  Pollutant :: "string option"
  Source_Name :: "string option"
  Unit :: "string option"
  Value :: "real option"
  Last_Updated :: "string option"
  lat :: "real option"
  lon :: "real option"

record labelled = measurement +
  is_anomaly :: int
  anomaly_score :: real

text \<open>
  A frame is the list of its column names (\<^verbatim>\<open>df.columns\<close>) and its rows in source order.
\<close>

record 'r frame =
  columns :: "string list"
  rows :: "'r list"

datatype error =
    FileNotFoundError
  | ReadError
  | ValueError_no_Value_column
  | ValueError_schema "string list" "string list" "string list"
  | TypeError
  | KeyError "string list"
  | ValueError_duplicate string
  | AttributeError

section \<open>Anomaly detector (main.py)\<close>

text \<open>\<^verbatim>\<open>Series.dropna()\<close>: the non-null entries, in order.\<close>

primrec dropna :: "'a option list \<Rightarrow> 'a list" where
  "dropna [] = []"
| "dropna (x # xs) = (case x of None \<Rightarrow> dropna xs | Some v \<Rightarrow> v # dropna xs)"

text \<open>
  \<^verbatim>\<open>Series.quantile(q)\<close> with the default linear interpolation, as numpy computes it
  on \<open>n\<close> sorted values: the virtual index is \<open>(n - 1) * q\<close>, the neighbours are its floor
  and the floor plus one (clipped to \<open>n - 1\<close>), and the result interpolates between them.
  The detector calls it on a non-empty series only.
\<close>

definition quantile :: "real list \<Rightarrow> real \<Rightarrow> real" where
  "quantile xs q =
     (let s = sort xs;
          n = length s;
          virtual_index = real (n - 1) * q;
          previous_index = nat \<lfloor>virtual_index\<rfloor>;
          next_index = min (previous_index + 1) (n - 1);
          gamma = virtual_index - real previous_index
      in s ! previous_index + (s ! next_index - s ! previous_index) * gamma)"

text \<open>
  \<^verbatim>\<open>Series.median()\<close> on a non-empty series: the middle value, or the mean of the two
  middle values.
\<close>

definition median :: "real list \<Rightarrow> real" where
  "median xs =
     (let s = sort xs; n = length s
      in if odd n then s ! (n div 2) else (s ! (n div 2 - 1) + s ! (n div 2)) / 2)"

text \<open>Lines 32 to 40 of \<^verbatim>\<open>detect_anomalies\<close>, as functions of \<^verbatim>\<open>value_series\<close>.\<close>

definition q1 :: "real list \<Rightarrow> real" where
  "q1 value_series = quantile value_series 0.25"

definition q3 :: "real list \<Rightarrow> real" where
  "q3 value_series = quantile value_series 0.75"

definition iqr :: "real list \<Rightarrow> real" where
  "iqr value_series = q3 value_series - q1 value_series"

definition lower_bound :: "real list \<Rightarrow> real" where
  "lower_bound value_series = q1 value_series - 1.5 * iqr value_series"

definition upper_bound :: "real list \<Rightarrow> real" where
  "upper_bound value_series = q3 value_series + 1.5 * iqr value_series"

text \<open>The two closures \<^verbatim>\<open>_is_anomaly\<close> and \<^verbatim>\<open>_score\<close>; \<^verbatim>\<open>pd.isna(v)\<close> is \<open>v = None\<close>.\<close>

definition is_anomaly_of :: "real \<Rightarrow> real \<Rightarrow> real option \<Rightarrow> int" where
  "is_anomaly_of lo hi v =
     (case v of
        None \<Rightarrow> 0
      | Some x \<Rightarrow> (if x < lo \<or> x > hi then 1 else 0))"

definition score_of :: "real \<Rightarrow> real \<Rightarrow> real \<Rightarrow> real option \<Rightarrow> real" where
  "score_of lo hi med v =
     (case v of
        None \<Rightarrow> 0
      | Some x \<Rightarrow> (if x < lo \<or> x > hi then \<bar>x - med\<bar> else 0))"

text \<open>\<^verbatim>\<open>df[name] = ...\<close>: an existing column is overwritten, a new one is appended.\<close>

definition setitem_column :: "string list \<Rightarrow> string \<Rightarrow> string list" where
  "setitem_column cols name = (if name \<in> set cols then cols else cols @ [name])"

definition label :: "int \<Rightarrow> real \<Rightarrow> measurement \<Rightarrow> labelled" where
  "label a s r = measurement.extend r (labelled.fields a s)"

definition labelled_columns :: "string list \<Rightarrow> string list" where
  "labelled_columns cols = setitem_column (setitem_column cols ''is_anomaly'') ''anomaly_score''"

text \<open>
  \<^verbatim>\<open>detect_anomalies\<close>. \<^verbatim>\<open>pd.to_numeric(df["Value"], errors="coerce")\<close> has already
  happened in the typed row (\<open>Value\<close> is the coerced number); it raises a TypeError when
  the label \<^verbatim>\<open>Value\<close> names more than one column, since \<^verbatim>\<open>df["Value"]\<close> is then a
  DataFrame.
\<close>

definition detect_anomalies :: "measurement frame \<Rightarrow> error + labelled frame" where
  "detect_anomalies df =
     (if ''Value'' \<notin> set (columns df) then Inl ValueError_no_Value_column
      else if 1 < count_list (columns df) ''Value'' then Inl TypeError
      else
        let value_series = dropna (map Value (rows df))
        in if value_series = [] then
             Inr \<lparr>columns = labelled_columns (columns df),
                  rows = map (label 0 0) (rows df)\<rparr>
           else
             let lo = lower_bound value_series;
                 hi = upper_bound value_series;
                 med = median value_series
             in Inr \<lparr>columns = labelled_columns (columns df),
                     rows = map (\<lambda>r. label (is_anomaly_of lo hi (Value r))
                                            (score_of lo hi med (Value r)) r)
                                (rows df)\<rparr>)"

text \<open>A table given by its value column alone; every other field is blank.\<close>

definition canonical_columns :: "string list" where
  "canonical_columns =
     [''Country_Code'', ''City'', ''Location'', ''lat'', ''lon'', ''Pollutant'',
      ''Source_Name'', ''Unit'', ''Value'', ''Last_Updated'', ''Country_Label'']"

definition row_of_value :: "real option \<Rightarrow> measurement" where
  "row_of_value v =
     \<lparr>Country_Code = None, Country_Label = None, City = None, Location = None,
      Pollutant = None, Source_Name = None, Unit = None, Value = v,
      Last_Updated = None, lat = None, lon = None\<rparr>"

definition frame_of_values :: "real option list \<Rightarrow> measurement frame" where
  "frame_of_values vs = \<lparr>columns = canonical_columns, rows = map row_of_value vs\<rparr>"

section \<open>The detector in float64 arithmetic\<close>

text \<open>
  pandas and numpy compute in float64: every arithmetic step gives the float nearest to
  the exact result. The definitions of this section repeat the detector with a rounding
  function \<open>rnd\<close> applied after each step, in the order in which numpy and \<^verbatim>\<open>main.py\<close>
  compute. The values of the table are the reals that float64 represents; overflow, NaN
  and infinities stay outside the model. Without rounding (\<open>rnd\<close> the identity) these
  definitions are the ones of the section before.
\<close>

text \<open>numpy's \<^verbatim>\<open>_lerp(a, b, t)\<close>: \<^verbatim>\<open>a + (b - a) * t\<close>, and \<^verbatim>\<open>b - (b - a) * (1 - t)\<close> where
  \<^verbatim>\<open>t >= 0.5\<close>.\<close>

definition lerp :: "(real \<Rightarrow> real) \<Rightarrow> real \<Rightarrow> real \<Rightarrow> real \<Rightarrow> real" where
  "lerp rnd a b t =
     (let diff_b_a = rnd (b - a)
      in if 1 / 2 \<le> t then rnd (b - rnd (diff_b_a * rnd (1 - t)))
         else rnd (a + rnd (diff_b_a * t)))"

definition quantile_float :: "(real \<Rightarrow> real) \<Rightarrow> real list \<Rightarrow> real \<Rightarrow> real" where
  "quantile_float rnd xs q =
     (let s = sort xs;
          n = length s;
          virtual_index = rnd (real (n - 1) * q);
          previous_index = nat \<lfloor>virtual_index\<rfloor>;
          next_index = min (previous_index + 1) (n - 1);
          gamma = rnd (virtual_index - real previous_index)
      in lerp rnd (s ! previous_index) (s ! next_index) gamma)"

definition median_float :: "(real \<Rightarrow> real) \<Rightarrow> real list \<Rightarrow> real" where
  "median_float rnd xs =
     (let s = sort xs; n = length s
      in if odd n then s ! (n div 2)
         else rnd (rnd (s ! (n div 2 - 1) + s ! (n div 2)) / 2))"

text \<open>\<^verbatim>\<open>_score\<close> with the rounded difference: \<^verbatim>\<open>float(abs(v - median))\<close>.\<close>

definition score_float ::
  "(real \<Rightarrow> real) \<Rightarrow> real \<Rightarrow> real \<Rightarrow> real \<Rightarrow> real option \<Rightarrow> real" where
  "score_float rnd lo hi med v =
     (case v of
        None \<Rightarrow> 0
      | Some x \<Rightarrow> (if x < lo \<or> x > hi then \<bar>rnd (x - med)\<bar> else 0))"

definition detect_anomalies_float ::
  "(real \<Rightarrow> real) \<Rightarrow> measurement frame \<Rightarrow> error + labelled frame" where
  "detect_anomalies_float rnd df =
     (if ''Value'' \<notin> set (columns df) then Inl ValueError_no_Value_column
      else if 1 < count_list (columns df) ''Value'' then Inl TypeError
      else
        let value_series = dropna (map Value (rows df))
        in if value_series = [] then
             Inr \<lparr>columns = labelled_columns (columns df),
                  rows = map (label 0 0) (rows df)\<rparr>
           else
             let q1 = quantile_float rnd value_series 0.25;
                 q3 = quantile_float rnd value_series 0.75;
                 iqr = rnd (q3 - q1);
                 lower_bound = rnd (q1 - rnd (1.5 * iqr));
                 upper_bound = rnd (q3 + rnd (1.5 * iqr));
                 median = median_float rnd value_series
             in Inr \<lparr>columns = labelled_columns (columns df),
                     rows = map (\<lambda>r. label (is_anomaly_of lower_bound upper_bound (Value r))
                                            (score_float rnd lower_bound upper_bound median
                                               (Value r)) r)
                                (rows df)\<rparr>)"

text \<open>
  Rounding to the nearest float64, ties to the even significand: 53 significant bits, the
  exponent not bounded (no overflow and no subnormal numbers).
\<close>

definition round_half_even :: "real \<Rightarrow> int" where
  "round_half_even y =
     (let f = \<lfloor>y\<rfloor>
      in if y - of_int f < 1 / 2 then f
         else if 1 / 2 < y - of_int f then f + 1
         else if even f then f else f + 1)"

definition round64 :: "real \<Rightarrow> real" where
  "round64 x =
     (if x = 0 then 0
      else let e = \<lfloor>log 2 \<bar>x\<bar>\<rfloor> - 52
           in of_int (round_half_even (x / 2 powr of_int e)) * 2 powr of_int e)"

section \<open>Strings\<close>

text \<open>
  Python's \<^verbatim>\<open>str.isspace\<close> on the ASCII range: tab, line feed, vertical tab, form feed,
  carriage return, the four separators \<open>0x1C\<close> to \<open>0x1F\<close>, and the space.
\<close>

definition isspace :: "char \<Rightarrow> bool" where
  "isspace c \<longleftrightarrow>
     c \<in> set [CHR 0x09, CHR 0x0A, CHR 0x0B, CHR 0x0C, CHR 0x0D,
               CHR 0x1C, CHR 0x1D, CHR 0x1E, CHR 0x1F, CHR 0x20]"

text \<open>\<^verbatim>\<open>str.strip()\<close>: leading and trailing whitespace removed.\<close>

definition strip :: "string \<Rightarrow> string" where
  "strip s = rev (dropWhile isspace (rev (dropWhile isspace s)))"

text \<open>\<^verbatim>\<open>str.split(sep)\<close> for a separator of one character; the result is never empty.\<close>

fun split :: "char \<Rightarrow> string \<Rightarrow> string list" where
  "split sep [] = [[]]"
| "split sep (c # cs) =
     (let ts = split sep cs
      in if c = sep then [] # ts else (c # hd ts) # tl ts)"

section \<open>Query engine (fast_api.py)\<close>

text \<open>
  The list comprehension of \<^verbatim>\<open>map_data\<close>:
  \<^verbatim>\<open>[c.strip() for c in country.split(",") if c.strip()]\<close>.
\<close>

definition parse_filter :: "string \<Rightarrow> string list" where
  "parse_filter s = [strip c. c \<leftarrow> split (CHR '','') s, strip c \<noteq> []]"

text \<open>\<^verbatim>\<open>Series.isin(values)\<close> on a text column: NaN is in no list of strings.\<close>

definition isin :: "string option \<Rightarrow> string list \<Rightarrow> bool" where
  "isin v vals = (case v of None \<Rightarrow> False | Some x \<Rightarrow> x \<in> set vals)"

text \<open>
  \<^verbatim>\<open>DataFrame.head(n)\<close>: the first \<open>n\<close> rows, and for a negative \<open>n\<close> all rows but the
  last \<open>|n|\<close>.
\<close>

definition head :: "int \<Rightarrow> 'a list \<Rightarrow> 'a list" where
  "head n xs = (if 0 \<le> n then take (nat n) xs else take (length xs - nat (- n)) xs)"

record response =
  count :: int
  data :: "labelled list"

text \<open>
  The filtering and truncation of \<^verbatim>\<open>map_data\<close> on the typed rows. \<^verbatim>\<open>if country:\<close> holds for
  a string that is present and not empty. The projection on the thirteen canonical
  columns is the record itself. The column lookups of \<^verbatim>\<open>map_data\<close>, which fail on a frame
  that lacks a label or carries it twice, are in \<open>map_data_on\<close> below.
\<close>

definition measurements ::
  "labelled frame \<Rightarrow> string option \<Rightarrow> string option \<Rightarrow> bool \<Rightarrow> int \<Rightarrow> response" where
  "measurements df country pollutant only_anomalies limit =
     (let filtered = rows df;
          filtered =
            (case country of
               None \<Rightarrow> filtered
             | Some s \<Rightarrow>
                 if s = [] then filtered
                 else let country_list = parse_filter s
                      in filter (\<lambda>r. isin (Country_Label r) country_list) filtered);
          filtered =
            (case pollutant of
               None \<Rightarrow> filtered
             | Some s \<Rightarrow>
                 if s = [] then filtered
                 else let pollutant_list = parse_filter s
                      in filter (\<lambda>r. isin (Pollutant r) pollutant_list) filtered);
          filtered =
            (if only_anomalies then filter (\<lambda>r. is_anomaly r = 1) filtered else filtered);
          filtered = head limit filtered
      in \<lparr>count = int (length filtered), data = filtered\<rparr>)"

text \<open>
  \<^verbatim>\<open>df[name]\<close> used as one column: a KeyError when no column carries the label; when
  several columns carry it, \<^verbatim>\<open>df[name]\<close> is a DataFrame and the operation that follows
  fails with the error \<open>e\<close>.
\<close>

definition series_error :: "string list \<Rightarrow> string \<Rightarrow> error \<Rightarrow> error option" where
  "series_error cols name e =
     (if name \<notin> set cols then Some (KeyError [name])
      else if 1 < count_list cols name then Some e
      else None)"

fun first_error :: "error option list \<Rightarrow> error option" where
  "first_error [] = None"
| "first_error (None # es) = first_error es"
| "first_error (Some e # es) = Some e"

text \<open>The thirteen labels of the projection at the end of \<^verbatim>\<open>map_data\<close>; a label that no
  column carries makes the projection raise a KeyError that names the absent labels.\<close>

definition response_columns :: "string list" where
  "response_columns =
     [''Country_Code'', ''Country_Label'', ''City'', ''Location'', ''Pollutant'',
      ''Source_Name'', ''Unit'', ''Value'', ''Last_Updated'', ''lat'', ''lon'',
      ''is_anomaly'', ''anomaly_score'']"

definition projection_error :: "string list \<Rightarrow> error option" where
  "projection_error cols =
     (let absent = filter (\<lambda>l. l \<notin> set cols) response_columns
      in if absent = [] then None else Some (KeyError absent))"

text \<open>
  The body of \<^verbatim>\<open>map_data\<close> after \<^verbatim>\<open>df = get_df()\<close>, with its lookups in source order: the
  boolean mask of a filter on a label that several columns carry makes the row selection
  raise a ValueError. A duplicated label that no filter reads does no harm:
  \<^verbatim>\<open>to_dict(orient="records")\<close> keeps the last column of the label, as the typed row does.
\<close>

definition map_data_on ::
  "labelled frame \<Rightarrow> string option \<Rightarrow> string option \<Rightarrow> bool \<Rightarrow> int \<Rightarrow> error + response" where
  "map_data_on df country pollutant only_anomalies limit =
     (case first_error
        [if country \<noteq> None \<and> country \<noteq> Some []
         then series_error (columns df) ''Country_Label'' (ValueError_duplicate ''Country_Label'')
         else None,
         if pollutant \<noteq> None \<and> pollutant \<noteq> Some []
         then series_error (columns df) ''Pollutant'' (ValueError_duplicate ''Pollutant'')
         else None,
         if only_anomalies
         then series_error (columns df) ''is_anomaly'' (ValueError_duplicate ''is_anomaly'')
         else None,
         projection_error (columns df)] of
        Some e \<Rightarrow> Inl e
      | None \<Rightarrow> Inr (measurements df country pollutant only_anomalies limit))"

text \<open>
  \<^verbatim>\<open>sorted(df[col].dropna().unique().tolist())\<close> of \<^verbatim>\<open>filters\<close>, and
  \<^verbatim>\<open>df[col].nunique()\<close> of \<^verbatim>\<open>summary\<close>.
\<close>

definition unique :: "'a list \<Rightarrow> 'a list" where
  "unique xs = rev (remdups (rev xs))"

definition sorted_unique :: "string option list \<Rightarrow> string list" where
  "sorted_unique col = sort (unique (dropna col))"

definition nunique :: "string option list \<Rightarrow> nat" where
  "nunique col = length (unique (dropna col))"

record filters_response =
  countries :: "string list"
  pollutants :: "string list"
  cities :: "string list"

text \<open>The three lists of \<^verbatim>\<open>filters\<close>.\<close>

definition filter_values :: "labelled frame \<Rightarrow> filters_response" where
  "filter_values df =
     \<lparr>countries = sorted_unique (map Country_Label (rows df)),
      pollutants = sorted_unique (map Pollutant (rows df)),
      cities = sorted_unique (map City (rows df))\<rparr>"

text \<open>
  The body of \<^verbatim>\<open>filters\<close> after \<^verbatim>\<open>df = get_df()\<close>: a DataFrame has no \<^verbatim>\<open>unique\<close>, so a label
  that several columns carry raises an AttributeError.
\<close>

definition filters_on :: "labelled frame \<Rightarrow> error + filters_response" where
  "filters_on df =
     (case first_error
        [series_error (columns df) ''Country_Label'' AttributeError,
         series_error (columns df) ''Pollutant'' AttributeError,
         series_error (columns df) ''City'' AttributeError] of
        Some e \<Rightarrow> Inl e
      | None \<Rightarrow> Inr (filter_values df))"

text \<open>
  \<^verbatim>\<open>df.groupby(key)["Value"].agg(["count", "mean", "min", "max"]).reset_index()\<close>: one
  row for each distinct non-null key, in sorted key order; the aggregates skip NaN, and
  mean, min and max of a group without values are NaN (\<open>None\<close>).
\<close>

record group_row =
  group_key :: string
  num_measurements :: nat
  avg_value :: "real option"
  min_value :: "real option"
  max_value :: "real option"

definition agg :: "string \<Rightarrow> real option list \<Rightarrow> group_row" where
  "agg k col =
     (let vs = dropna col
      in \<lparr>group_key = k,
          num_measurements = length vs,
          avg_value = (if vs = [] then None else Some (sum_list vs / real (length vs))),
          min_value = (if vs = [] then None else Some (Min (set vs))),
          max_value = (if vs = [] then None else Some (Max (set vs)))\<rparr>)"

definition groupby_agg :: "(labelled \<Rightarrow> string option) \<Rightarrow> labelled list \<Rightarrow> group_row list" where
  "groupby_agg key rs =
     map (\<lambda>k. agg k (map Value (filter (\<lambda>r. key r = Some k) rs)))
         (sort (unique (dropna (map key rs))))"

record summary_response =
  total_rows :: nat
  num_countries :: nat
  num_cities :: nat
  num_pollutants :: nat
  summary_by_country :: "group_row list"
  summary_by_pollutant :: "group_row list"

text \<open>The dictionary that \<^verbatim>\<open>summary\<close> returns.\<close>

definition summary_table :: "labelled frame \<Rightarrow> summary_response" where
  "summary_table df =
     \<lparr>total_rows = length (rows df),
      num_countries = nunique (map Country_Label (rows df)),
      num_cities = nunique (map City (rows df)),
      num_pollutants = nunique (map Pollutant (rows df)),
      summary_by_country = groupby_agg Country_Label (rows df),
      summary_by_pollutant = groupby_agg Pollutant (rows df)\<rparr>"

text \<open>
  The body of \<^verbatim>\<open>summary\<close> after \<^verbatim>\<open>df = get_df()\<close>, with its lookups in source order:
  \<^verbatim>\<open>groupby\<close> raises a ValueError for a key label that several columns carry, and
  \<^verbatim>\<open>int(df["City"].nunique())\<close> raises a TypeError when the label names several columns. The
  aggregation reads the one column labelled \<^verbatim>\<open>Value\<close> of a loaded dataset.
\<close>

definition summary_on :: "labelled frame \<Rightarrow> error + summary_response" where
  "summary_on df =
     (case first_error
        [series_error (columns df) ''Country_Label'' (ValueError_duplicate ''Country_Label''),
         if ''Value'' \<notin> set (columns df) then Some (KeyError [''Value'']) else None,
         series_error (columns df) ''Pollutant'' (ValueError_duplicate ''Pollutant''),
         series_error (columns df) ''City'' TypeError] of
        Some e \<Rightarrow> Inl e
      | None \<Rightarrow> Inr (summary_table df))"

section \<open>Loading and normalising the CSV (fast_api.py)\<close>

text \<open>
  What \<^verbatim>\<open>pd.read_csv\<close> hands over: the original column names and the rows. The code
  looks at a cell in two ways only: as the object of a text column (\<open>as_text\<close>, \<open>None\<close>
  for NaN) and through \<^verbatim>\<open>pd.to_numeric(errors="coerce")\<close> (\<open>as_number\<close>, \<open>None\<close> for NaN
  and for text that is not a number). The file at \<^verbatim>\<open>CSV_PATH\<close> may be missing, or
  \<^verbatim>\<open>read_csv\<close> may raise.
\<close>

record cell =
  as_text :: "string option"
  as_number :: "real option"

record raw_table =
  original_cols :: "string list"
  body :: "cell list list"

datatype csv_file = Missing | Unreadable | Table raw_table

text \<open>\<^verbatim>\<open>str.lower()\<close> on ASCII letters.\<close>

definition lower_char :: "char \<Rightarrow> char" where
  "lower_char c =
     (case map_of (zip ''ABCDEFGHIJKLMNOPQRSTUVWXYZ'' ''abcdefghijklmnopqrstuvwxyz'') c of
        None \<Rightarrow> c
      | Some l \<Rightarrow> l)"

text \<open>\<^verbatim>\<open>.str.replace(r"\s+", "_", regex=True)\<close>: every maximal run of whitespace
  becomes one underscore.\<close>

fun replace_spaces :: "bool \<Rightarrow> string \<Rightarrow> string" where
  "replace_spaces in_run [] = []"
| "replace_spaces in_run (c # cs) =
     (if isspace c then
        (if in_run then replace_spaces True cs else CHR ''_'' # replace_spaces True cs)
      else c # replace_spaces False cs)"

definition normalize_column :: "string \<Rightarrow> string" where
  "normalize_column name = replace_spaces False (map lower_char (strip name))"

text \<open>The helper \<^verbatim>\<open>find_col\<close>; \<^verbatim>\<open>df.columns\<close> is its first argument.\<close>

fun find_col :: "string list \<Rightarrow> string list \<Rightarrow> string option" where
  "find_col cols [] = None"
| "find_col cols (name # possible_names) =
     (if name \<in> set cols then Some name else find_col cols possible_names)"

text \<open>
  \<^verbatim>\<open>read_csv\<close> gives every row one cell for each column; a short row is filled with NaN.
\<close>

definition nan_cell :: cell where
  "nan_cell = \<lparr>as_text = None, as_number = None\<rparr>"

definition pad :: "nat \<Rightarrow> cell list \<Rightarrow> cell list" where
  "pad n row = take n row @ replicate (n - length row) nan_cell"

text \<open>
  \<^verbatim>\<open>df[name] = value\<close> with a scalar: every column labelled \<open>name\<close> is overwritten, or a
  new last column is added.
\<close>

definition setitem_scalar :: "string list \<Rightarrow> string \<Rightarrow> cell \<Rightarrow> cell list \<Rightarrow> cell list" where
  "setitem_scalar cols name v row =
     (if name \<in> set cols then map (\<lambda>(c, x). if c = name then v else x) (zip cols row)
      else row @ [v])"

text \<open>
  The typed view of a row: for each canonical label the cell of the last column that
  carries it, as \<^verbatim>\<open>to_dict(orient="records")\<close> keeps it. (The numeric labels name one column
  each in a dataset that loads.)
\<close>

definition cell_at :: "string list \<Rightarrow> cell list \<Rightarrow> string \<Rightarrow> cell" where
  "cell_at cols row name =
     (case filter (\<lambda>(c, x). c = name) (zip cols row) of
        [] \<Rightarrow> nan_cell
      | cs \<Rightarrow> snd (last cs))"

definition to_measurement :: "string list \<Rightarrow> cell list \<Rightarrow> measurement" where
  "to_measurement cols row =
     \<lparr>Country_Code = as_text (cell_at cols row ''Country_Code''),
      Country_Label = as_text (cell_at cols row ''Country_Label''),
      City = as_text (cell_at cols row ''City''),
      Location = as_text (cell_at cols row ''Location''),
      Pollutant = as_text (cell_at cols row ''Pollutant''),
      Source_Name = as_text (cell_at cols row ''Source_Name''),
      Unit = as_text (cell_at cols row ''Unit''),
      Value = as_number (cell_at cols row ''Value''),
      Last_Updated = as_text (cell_at cols row ''Last_Updated''),
      lat = as_number (cell_at cols row ''lat''),
      lon = as_number (cell_at cols row ''lon'')\<rparr>"

text \<open>Step 2 of \<^verbatim>\<open>_load_and_prepare_data\<close>: the eleven \<^verbatim>\<open>find_col\<close> calls.\<close>

record resolved =
  col_country_code :: "string option"
  col_city :: "string option"
  col_location :: "string option"
  col_latitude :: "string option"
  col_longitude :: "string option"
  col_pollutant :: "string option"
  col_source_name :: "string option"
  col_unit :: "string option"
  col_value :: "string option"
  col_last_updated :: "string option"
  col_country_label :: "string option"

definition resolve :: "string list \<Rightarrow> resolved" where
  "resolve cols =
     \<lparr>col_country_code = find_col cols [''country_code'', ''countrycode'', ''code''],
      col_city = find_col cols [''city''],
      col_location = find_col cols [''location'', ''station'', ''site''],
      col_latitude = find_col cols [''latitude'', ''lat''],
      col_longitude = find_col cols [''longitude'', ''lon''],
      col_pollutant = find_col cols [''pollutant'', ''parameter''],
      col_source_name = find_col cols [''source_name'', ''sourcename'', ''source''],
      col_unit = find_col cols [''unit''],
      col_value = find_col cols [''value'', ''concentration''],
      col_last_updated = find_col cols [''last_updated'', ''date_local'', ''date'', ''timestamp''],
      col_country_label = find_col cols [''country_label'', ''country'']\<rparr>"

text \<open>
  The dictionary \<^verbatim>\<open>required_logical\<close> in insertion order (\<^verbatim>\<open>col_coordinates\<close> is the dummy
  \<^verbatim>\<open>"NOT_USED"\<close>), and the list \<^verbatim>\<open>missing_logical\<close> with its combined entry for latitude
  and longitude.
\<close>

definition required_logical :: "resolved \<Rightarrow> (string \<times> string option) list" where
  "required_logical r =
     [(''Country_Code'', col_country_code r),
      (''City'', col_city r),
      (''Location'', col_location r),
      (''Coordinates'', Some ''NOT_USED''),
      (''Pollutant'', col_pollutant r),
      (''Source_Name'', col_source_name r),
      (''Unit'', col_unit r),
      (''Value'', col_value r),
      (''Last_Updated'', col_last_updated r),
      (''Country_Label'', col_country_label r)]"

definition missing_logical :: "resolved \<Rightarrow> string list" where
  "missing_logical r =
     (let missing = [k. (k, v) \<leftarrow> required_logical r,
                        v = None \<and> k \<notin> set [''Coordinates'', ''Source_Name'']]
      in if col_latitude r = None \<or> col_longitude r = None
         then missing @ [''Latitude/Longitude''] else missing)"

text \<open>
  The dictionary \<^verbatim>\<open>rename_dict\<close>, keyed by the resolved names, and
  \<^verbatim>\<open>df.rename(columns=rename_dict)\<close>.
\<close>

definition rename_dict :: "resolved \<Rightarrow> (string option \<times> string) list" where
  "rename_dict r =
     [(col_country_code r, ''Country_Code''),
      (col_city r, ''City''),
      (col_location r, ''Location''),
      (col_pollutant r, ''Pollutant''),
      (col_source_name r, ''Source_Name''),
      (col_unit r, ''Unit''),
      (col_value r, ''Value''),
      (col_last_updated r, ''Last_Updated''),
      (col_country_label r, ''Country_Label''),
      (col_latitude r, ''lat''),
      (col_longitude r, ''lon'')]"

definition rename :: "(string option \<times> string) list \<Rightarrow> string list \<Rightarrow> string list" where
  "rename d cols = map (\<lambda>c. case map_of d (Some c) of None \<Rightarrow> c | Some new \<Rightarrow> new) cols"

text \<open>
  \<^verbatim>\<open>_load_and_prepare_data\<close>. The schema error carries the three lists its message
  prints: \<^verbatim>\<open>missing_logical\<close>, the normalised columns and the original columns.
  \<^verbatim>\<open>pd.to_numeric(df["lat"], errors="coerce")\<close> is the \<open>as_number\<close> of the typed row; it
  raises a TypeError when the label names more than one column after the renaming.
\<close>

definition load_and_prepare_data :: "csv_file \<Rightarrow> error + labelled frame" where
  "load_and_prepare_data file =
     (case file of
        Missing \<Rightarrow> Inl FileNotFoundError
      | Unreadable \<Rightarrow> Inl ReadError
      | Table t \<Rightarrow>
          let original = original_cols t;
              cols = map normalize_column original;
              cells = map (pad (length cols)) (body t);
              r = resolve cols;
              missing = missing_logical r
          in if missing \<noteq> [] then Inl (ValueError_schema missing cols original)
             else
               let (cols, cells, r) =
                     (if col_source_name r = None
                      then (setitem_column cols ''Source_Name'',
                            map (setitem_scalar cols ''Source_Name''
                                   \<lparr>as_text = Some ''Unknown Source'', as_number = None\<rparr>) cells,
                            r\<lparr>col_source_name := Some ''Source_Name''\<rparr>)
                      else (cols, cells, r));
                   cols = rename (rename_dict r) cols
               in if 1 < count_list cols ''lat'' \<or> 1 < count_list cols ''lon''
                  then Inl TypeError
                  else detect_anomalies
                         \<lparr>columns = cols, rows = map (to_measurement cols) cells\<rparr>)"

section \<open>Dataset store and endpoints (fast_api.py)\<close>

text \<open>
  \<^verbatim>\<open>app.state.df\<close> is \<open>state_df\<close> (\<open>None\<close> when it is unset or \<^verbatim>\<open>None\<close>). \<open>load_calls\<close> is a
  ghost counter of the calls of \<^verbatim>\<open>_load_and_prepare_data\<close>. The file at \<^verbatim>\<open>CSV_PATH\<close> is an
  argument of every operation that may load.
\<close>

record app_state =
  state_df :: "labelled frame option"
  load_calls :: nat

definition startup_event :: "csv_file \<Rightarrow> app_state \<Rightarrow> app_state" where
  "startup_event file st =
     (case load_and_prepare_data file of
        Inr d \<Rightarrow> \<lparr>state_df = Some d, load_calls = load_calls st + 1\<rparr>
      | Inl e \<Rightarrow> \<lparr>state_df = None, load_calls = load_calls st + 1\<rparr>)"

definition get_df :: "csv_file \<Rightarrow> app_state \<Rightarrow> (error + labelled frame) \<times> app_state" where
  "get_df file st =
     (case state_df st of
        Some d \<Rightarrow> (Inr d, st)
      | None \<Rightarrow>
          (case load_and_prepare_data file of
             Inl e \<Rightarrow> (Inl e, st\<lparr>load_calls := load_calls st + 1\<rparr>)
           | Inr d \<Rightarrow> (Inr d, \<lparr>state_df = Some d, load_calls = load_calls st + 1\<rparr>)))"

definition health :: "app_state \<Rightarrow> string \<times> bool" where
  "health st = (''ok'', state_df st \<noteq> None)"

definition filters :: "csv_file \<Rightarrow> app_state \<Rightarrow> (error + filters_response) \<times> app_state" where
  "filters file st =
     (case get_df file st of
        (Inl e, st') \<Rightarrow> (Inl e, st')
      | (Inr d, st') \<Rightarrow> (filters_on d, st'))"

definition map_data ::
  "csv_file \<Rightarrow> app_state \<Rightarrow> string option \<Rightarrow> string option \<Rightarrow> bool \<Rightarrow> int \<Rightarrow>
   (error + response) \<times> app_state" where
  "map_data file st country pollutant only_anomalies limit =
     (case get_df file st of
        (Inl e, st') \<Rightarrow> (Inl e, st')
      | (Inr d, st') \<Rightarrow> (map_data_on d country pollutant only_anomalies limit, st'))"

definition summary :: "csv_file \<Rightarrow> app_state \<Rightarrow> (error + summary_response) \<times> app_state" where
  "summary file st =
     (case get_df file st of
        (Inl e, st') \<Rightarrow> (Inl e, st')
      | (Inr d, st') \<Rightarrow> (summary_on d, st'))"

section \<open>The specification's notions\<close>

text \<open>
  The definitions of this section follow the words of the specification, not the code;
  the theorems below compare the code with them.
\<close>

text \<open>
  The quartile at \<open>q\<close> of a sorted series \<open>s\<close> by linear interpolation: the position is
  \<open>h = (n - 1) * q\<close>, its neighbours are the values at \<open>lo = floor h\<close> and at the next index,
  and the fraction \<open>g = h - lo\<close> interpolates between them, from the lower neighbour when
  \<open>g < 1/2\<close> and from the upper neighbour otherwise. The median of a sorted series is its
  middle value or the mean of its two middle values. Every arithmetic step is rounded
  by \<open>rnd\<close>.
\<close>

definition spec_quartile :: "(real \<Rightarrow> real) \<Rightarrow> real list \<Rightarrow> real \<Rightarrow> real" where
  "spec_quartile rnd s q =
     (let n = length s;
          h = rnd (real (n - 1) * q);
          lo = nat \<lfloor>h\<rfloor>;
          hi = min (lo + 1) (n - 1);
          g = rnd (h - real lo);
          d = rnd (s ! hi - s ! lo)
      in if g < 1 / 2 then rnd (s ! lo + rnd (d * g))
         else rnd (s ! hi - rnd (d * rnd (1 - g))))"

definition spec_median :: "(real \<Rightarrow> real) \<Rightarrow> real list \<Rightarrow> real" where
  "spec_median rnd s =
     (if odd (length s) then s ! (length s div 2)
      else rnd (rnd (s ! (length s div 2 - 1) + s ! (length s div 2)) / 2))"

text \<open>\<open>sep.join(ts)\<close>: a string is cut into comma-separated tokens \<open>ts\<close> when joining
  them gives the string back and no token holds a comma.\<close>

fun join :: "char \<Rightarrow> string list \<Rightarrow> string" where
  "join sep [] = []"
| "join sep [t] = t"
| "join sep (t # u # ts) = t @ sep # join sep (u # ts)"

text \<open>The optional set of labels a filter string stands for: none when the string is
  absent or empty.\<close>

definition spec_filter_set :: "string option \<Rightarrow> string set option" where
  "spec_filter_set f =
     (case f of None \<Rightarrow> None | Some s \<Rightarrow> if s = [] then None else Some (set (parse_filter s)))"

definition spec_in :: "string set option \<Rightarrow> string option \<Rightarrow> bool" where
  "spec_in S v \<longleftrightarrow> S = None \<or> (\<exists>A x. S = Some A \<and> v = Some x \<and> x \<in> A)"

text \<open>A record matches: no country filter or its label is in the set, no pollutant filter
  or its pollutant is in the set, and not only-anomalies or it is an anomaly.\<close>

definition spec_matches ::
  "string set option \<Rightarrow> string set option \<Rightarrow> bool \<Rightarrow> labelled \<Rightarrow> bool" where
  "spec_matches cs ps only_anomalies r \<longleftrightarrow>
     spec_in cs (Country_Label r) \<and> spec_in ps (Pollutant r) \<and>
     (\<not> only_anomalies \<or> is_anomaly r = 1)"



text \<open>The ten required logical fields of the normaliser with their ordered aliases, and
  the fields that no alias resolves among the normalised headers.\<close>

definition spec_required_fields :: "(string \<times> string list) list" where
  "spec_required_fields =
     [(''country_code'', [''country_code'', ''countrycode'', ''code'']),
      (''city'', [''city'']),
      (''location'', [''location'', ''station'', ''site'']),
      (''pollutant'', [''pollutant'', ''parameter'']),
      (''unit'', [''unit'']),
      (''value'', [''value'', ''concentration'']),
      (''last_updated'', [''last_updated'', ''date_local'', ''date'', ''timestamp'']),
      (''country_label'', [''country_label'', ''country'']),
      (''latitude'', [''latitude'', ''lat'']),
      (''longitude'', [''longitude'', ''lon''])]"

definition spec_unresolved :: "string list \<Rightarrow> string list" where
  "spec_unresolved cols =
     [f. (f, aliases) \<leftarrow> spec_required_fields, set aliases \<inter> set cols = {}]"

text \<open>The name the error message gives a field, and the names it lists for a list of
  unresolved fields: latitude and longitude share one entry, which comes last.\<close>

definition error_name :: "string \<Rightarrow> string" where
  "error_name f =
     (case map_of
        [(''country_code'', ''Country_Code''), (''city'', ''City''),
         (''location'', ''Location''), (''pollutant'', ''Pollutant''), (''unit'', ''Unit''),
         (''value'', ''Value''), (''last_updated'', ''Last_Updated''),
         (''country_label'', ''Country_Label'')] f of
        Some n \<Rightarrow> n
      | None \<Rightarrow> ''Latitude/Longitude'')"

definition error_names :: "string list \<Rightarrow> string list" where
  "error_names fs =
     map error_name (filter (\<lambda>f. f \<noteq> ''latitude'' \<and> f \<noteq> ''longitude'') fs) @
     (if ''latitude'' \<in> set fs \<or> ''longitude'' \<in> set fs then [''Latitude/Longitude'']
      else [])"

section \<open>Example tables\<close>

definition mk_row :: "string option \<Rightarrow> string option \<Rightarrow> real option \<Rightarrow> measurement" where
  "mk_row c p v = (row_of_value v)\<lparr>Country_Label := c, Pollutant := p\<rparr>"

definition example_table :: "measurement frame" where
  "example_table =
     \<lparr>columns = canonical_columns,
      rows = [mk_row (Some ''India'') (Some ''pm25'') (Some 1),
              mk_row (Some ''India'') (Some ''no2'') (Some 2),
              mk_row (Some ''United States'') (Some ''pm25'') (Some 3),
              mk_row (Some ''United States'') (Some ''no2'') (Some 4),
              mk_row None (Some ''pm25'') (Some 5),
              mk_row (Some ''India'') (Some ''pm25'') (Some 100),
              mk_row (Some ''United States'') None None]\<rparr>"

definition example_dataset :: "labelled frame" where
  "example_dataset =
     \<lparr>columns = labelled_columns canonical_columns,
      rows = [label 0 0 (mk_row (Some ''India'') (Some ''pm25'') (Some 1)),
              label 0 0 (mk_row (Some ''India'') (Some ''no2'') (Some 2)),
              label 0 0 (mk_row (Some ''United States'') (Some ''pm25'') (Some 3)),
              label 0 0 (mk_row (Some ''United States'') (Some ''no2'') (Some 4)),
              label 0 0 (mk_row None (Some ''pm25'') (Some 5)),
              label 1 96.5 (mk_row (Some ''India'') (Some ''pm25'') (Some 100)),
              label 0 0 (mk_row (Some ''United States'') None None)]\<rparr>"

definition header_without :: "string \<Rightarrow> raw_table" where
  "header_without h =
     \<lparr>original_cols =
        filter (\<lambda>c. c \<noteq> h)
          [''Country Code'', ''City'', '' Location'', ''Lat'', ''Longitude'', ''PARAMETER'',
           ''Unit'', ''Value'', ''Last  Updated'', ''Country''],
      body = []\<rparr>"

text \<open>A CSV table with every required column, without a source column, and two rows;
  the value of the second row is not a number.\<close>

definition text_cell :: "string \<Rightarrow> cell" where
  "text_cell s = \<lparr>as_text = Some s, as_number = None\<rparr>"

definition number_cell :: "string \<Rightarrow> real \<Rightarrow> cell" where
  "number_cell s x = \<lparr>as_text = Some s, as_number = Some x\<rparr>"

definition example_csv :: raw_table where
  "example_csv =
     \<lparr>original_cols =
        [''Country Code'', ''City'', '' Location'', ''Lat'', ''Longitude'', ''PARAMETER'',
         ''Unit'', ''Value'', ''Last  Updated'', ''Country''],
      body =
        [[text_cell ''IN'', text_cell ''Delhi'', text_cell ''ITO'', number_cell ''28.6'' 28.6, number_cell ''77.2'' 77.2,
          text_cell ''pm25'', text_cell ''ug/m3'', number_cell ''90'' 90, text_cell ''2024-01-01'', text_cell ''India''],
         [text_cell ''US'', text_cell ''Boston'', text_cell ''Kenmore'', number_cell ''42.3'' 42.3, text_cell ''west'',
          text_cell ''no2'', text_cell ''ppm'', text_cell ''n/a'', text_cell ''2024-01-02'', text_cell ''United States'']]\<rparr>"

text \<open>
  A CSV table in which two headers, Country and COUNTRY, normalise to the same name: both
  columns are renamed to Country_Label.
\<close>

definition duplicate_csv :: raw_table where
  "duplicate_csv =
     \<lparr>original_cols =
        [''Country Code'', ''City'', ''Location'', ''Latitude'', ''Longitude'', ''Pollutant'',
         ''Source'', ''Unit'', ''Value'', ''Date'', ''Country'', ''COUNTRY''],
      body =
        [[text_cell ''IN'', text_cell ''Delhi'', text_cell ''ITO'', number_cell ''28.6'' 28.6,
          number_cell ''77.2'' 77.2, text_cell ''pm25'', text_cell ''CPCB'', text_cell ''ug/m3'',
          number_cell ''90'' 90, text_cell ''2024-01-01'', text_cell ''India'',
          text_cell ''Bharat'']]\<rparr>"

text \<open>
  A series on which float64 rounding decides: the exact first quartile is \<open>1 + 2^-54\<close>, which
  rounds to \<open>1\<close>.
\<close>

definition rounding_example :: "real list" where
  "rounding_example = [- (1 / 2), 1, 1 + 1 / 2 ^ 52, 2, 2, 7 / 2]"

text \<open>A store that holds the example dataset after one load.\<close>

definition loaded_example :: app_state where
  "loaded_example = \<lparr>state_df = Some example_dataset, load_calls = 1\<rparr>"

section \<open>Properties of the detector\<close>

lemma label_simps:
  "is_anomaly (label a s r) = a"
  "anomaly_score (label a s r) = s"
  "Value (label a s r) = Value r"
  "Country_Label (label a s r) = Country_Label r"
  "Pollutant (label a s r) = Pollutant r"
  by (simp_all add: label_def measurement.extend_def labelled.fields_def)

lemma dropna_set: "set (dropna xs) = {v. Some v \<in> set xs}"
  by (induction xs) (auto split: option.splits)

lemma dropna_all_None: "dropna xs = [] \<longleftrightarrow> (\<forall>x \<in> set xs. x = None)"
  by (induction xs) (auto split: option.splits)

lemma detect_anomalies_rows:
  assumes "detect_anomalies df = Inr out"
  shows "rows out =
           (let vs = dropna (map Value (rows df))
            in if vs = [] then map (label 0 0) (rows df)
               else map (\<lambda>r. label (is_anomaly_of (lower_bound vs) (upper_bound vs) (Value r))
                                    (score_of (lower_bound vs) (upper_bound vs) (median vs) (Value r)) r)
                        (rows df))"
  using assms by (auto simp: detect_anomalies_def Let_def split: if_splits)

lemma sort_constant:
  assumes "\<forall>v \<in> set xs. v = c" and "i < length xs"
  shows "sort xs ! i = (c::real)"
proof -
  have "sort xs ! i \<in> set (sort xs)" using assms(2) by (simp add: nth_mem del: set_sort)
  then show ?thesis using assms(1) by simp
qed

lemma quantile_constant:
  assumes "xs \<noteq> []" and "\<forall>v \<in> set xs. v = c" and "0 \<le> q" and "q \<le> 1"
  shows "quantile xs q = c"
proof -
  have n: "0 < length xs" using assms(1) by simp
  have "real (length xs - 1) * q \<le> real (length xs - 1)"
    using assms(3,4) by (simp add: mult_left_le)
  then have "\<lfloor>real (length xs - 1) * q\<rfloor> \<le> int (length xs - 1)"
    by (simp add: floor_le_iff)
  then have p: "nat \<lfloor>real (length xs - 1) * q\<rfloor> < length xs"
    using n by linarith
  have m: "min (nat \<lfloor>real (length xs - 1) * q\<rfloor> + 1) (length xs - 1) < length xs"
    using n by (simp add: min_less_iff_disj)
  show ?thesis
    unfolding quantile_def Let_def length_sort
      sort_constant [OF assms(2) p] sort_constant [OF assms(2) m]
    by simp
qed

lemma example_frame:
  "columns (frame_of_values vs) = canonical_columns"
  "rows (frame_of_values vs) = map row_of_value vs"
  "Value (row_of_value v) = v"
  "''Value'' \<in> set canonical_columns"
  "count_list canonical_columns ''Value'' = 1"
  by (simp_all add: frame_of_values_def row_of_value_def canonical_columns_def)

lemma one_Value_column:
  assumes "count_list (columns df) ''Value'' = 1"
  shows "''Value'' \<in> set (columns df)" and "\<not> 1 < count_list (columns df) ''Value''"
  using assms count_list_0_iff [of "columns df" "''Value''"] by simp_all

lemma round64_eval:
  fixes m :: nat
  assumes "2 ^ 52 \<le> \<bar>x\<bar> * 2 ^ m" and "\<bar>x\<bar> * 2 ^ m < 2 ^ 53"
  shows "round64 x = of_int (round_half_even (x * 2 ^ m)) / 2 ^ m"
proof -
  have nz: "x \<noteq> 0" using assms(1) by auto
  have p: "(2::real) powr of_int (52 - int m) = 2 ^ 52 / 2 ^ m"
  proof -
    have "(2::real) powr of_int (52 - int m) = 2 powr (real 52 - real m)" by simp
    also have "\<dots> = 2 powr real 52 / 2 powr real m" by (rule powr_diff)
    also have "\<dots> = 2 ^ 52 / 2 ^ m" by (simp only: powr_realpow [of 2] zero_less_numeral)
    finally show ?thesis .
  qed
  have p1: "(2::real) powr of_int (52 - int m + 1) = 2 ^ 53 / 2 ^ m"
  proof -
    have "(2::real) powr of_int (52 - int m + 1) = 2 powr (real 53 - real m)" by simp
    also have "\<dots> = 2 powr real 53 / 2 powr real m" by (rule powr_diff)
    also have "\<dots> = 2 ^ 53 / 2 ^ m" by (simp only: powr_realpow [of 2] zero_less_numeral)
    finally show ?thesis .
  qed
  have "\<lfloor>log 2 \<bar>x\<bar>\<rfloor> = 52 - int m"
  proof -
    have "2 powr of_int (52 - int m) \<le> \<bar>x\<bar>"
      unfolding p using assms(1) by (simp add: field_simps)
    moreover have "\<bar>x\<bar> < 2 powr of_int (52 - int m + 1)"
      unfolding p1 using assms(2) by (simp add: field_simps)
    ultimately show ?thesis
      using nz floor_log_eq_powr_iff [of "\<bar>x\<bar>" 2 "52 - int m"] by simp
  qed
  then have e: "\<lfloor>log 2 \<bar>x\<bar>\<rfloor> - 52 = - int m" by simp
  have u: "(2::real) powr of_int (- int m) = 1 / 2 ^ m"
  proof -
    have "(2::real) powr of_int (- int m) = 2 powr (- real m)" by simp
    also have "\<dots> = inverse (2 powr real m)" by (rule powr_minus)
    also have "\<dots> = 1 / 2 ^ m" by (simp only: powr_realpow [of 2] zero_less_numeral inverse_eq_divide)
    finally show ?thesis .
  qed
  show ?thesis
    unfolding round64_def Let_def e u using nz by simp
qed

lemma round64_exact_examples:
  "round64 (5 / 4) = 5 / 4"
  "round64 (1 / 4) = 1 / 4"
  "round64 (1 / 4503599627370496) = 1 / 4503599627370496"
  "round64 (1 / 18014398509481984) = 1 / 18014398509481984"
  "round64 (15 / 4) = 15 / 4"
  "round64 (3 / 4) = 3 / 4"
  "round64 2 = 2"
  "round64 1 = 1"
  "round64 (3 / 2) = 3 / 2"
  "round64 (- (1 / 2)) = - (1 / 2)"
  "round64 (7 / 2) = 7 / 2"
  "round64 0 = 0"
  by (simp add: round64_eval [where m = 52] round_half_even_def,
      simp add: round64_eval [where m = 54] round_half_even_def,
      simp add: round64_eval [where m = 104] round_half_even_def,
      simp add: round64_eval [where m = 106] round_half_even_def,
      simp add: round64_eval [where m = 51] round_half_even_def,
      simp add: round64_eval [where m = 53] round_half_even_def,
      simp add: round64_eval [where m = 51] round_half_even_def,
      simp add: round64_eval [where m = 52] round_half_even_def,
      simp add: round64_eval [where m = 52] round_half_even_def,
      simp add: round64_eval [where m = 53] round_half_even_def,
      simp add: round64_eval [where m = 51] round_half_even_def,
      simp add: round64_def)

lemma round64_rounding_examples:
  "round64 (18014398509481985 / 18014398509481984) = 1"
  "round64 (9007199254740993 / 9007199254740992) = 1"
  "round64 (9007199254740995 / 9007199254740992) = 4503599627370498 / 4503599627370496"
  by (simp_all add: round64_eval [where m = 52] round_half_even_def)

lemma round64_more_examples:
  "round64 (9 / 4) = 9 / 4"
  "round64 (19 / 4) = 19 / 4"
  "round64 (5 / 2) = 5 / 2"
  "round64 (- (3 / 2)) = - (3 / 2)"
  "round64 (17 / 2) = 17 / 2"
  "round64 7 = 7"
  "round64 (193 / 2) = 193 / 2"
  by (simp add: round64_eval [where m = 51] round_half_even_def,
      simp add: round64_eval [where m = 50] round_half_even_def,
      simp add: round64_eval [where m = 51] round_half_even_def,
      simp add: round64_eval [where m = 52] round_half_even_def,
      simp add: round64_eval [where m = 49] round_half_even_def,
      simp add: round64_eval [where m = 50] round_half_even_def,
      simp add: round64_eval [where m = 46] round_half_even_def)

lemma outlier_example_float:
  "spec_quartile round64 [1, 2, 3, 4, 5, 100] (1 / 4) = 9 / 4"
  "spec_quartile round64 [1, 2, 3, 4, 5, 100] (3 / 4) = 19 / 4"
  "spec_median round64 [1, 2, 3, 4, 5, 100] = 7 / 2"
  by (simp_all add: spec_quartile_def spec_median_def Let_def round64_exact_examples
      round64_more_examples)

lemma lerp_exact: "lerp (\<lambda>x. x) a b t = a + (b - a) * t"
  by (simp add: lerp_def Let_def algebra_simps)

lemma quantile_float_exact: "quantile_float (\<lambda>x. x) xs q = quantile xs q"
  by (simp add: quantile_float_def quantile_def lerp_exact Let_def)

lemma median_float_exact: "median_float (\<lambda>x. x) xs = median xs"
  by (simp add: median_float_def median_def)

lemma score_float_exact: "score_float (\<lambda>x. x) = score_of"
  by (simp add: score_float_def score_of_def fun_eq_iff)

lemma detect_anomalies_float_exact: "detect_anomalies_float (\<lambda>x. x) df = detect_anomalies df"
  by (simp add: detect_anomalies_float_def detect_anomalies_def Let_def quantile_float_exact
      median_float_exact score_float_exact lower_bound_def upper_bound_def iqr_def q1_def q3_def)

lemma quantile_float_spec: "quantile_float rnd vs q = spec_quartile rnd (sort vs) q"
  by (simp add: quantile_float_def spec_quartile_def lerp_def Let_def not_less)

lemma median_float_spec: "median_float rnd vs = spec_median rnd (sort vs)"
  by (simp add: median_float_def spec_median_def Let_def)

lemma rounding_example_float_quartiles:
  "spec_quartile round64 (sort rounding_example) (1 / 4) = 1"
  "spec_quartile round64 (sort rounding_example) (3 / 4) = 2"
  by (simp_all add: spec_quartile_def Let_def rounding_example_def round64_exact_examples
      round64_rounding_examples)

lemma rounding_example_exact_quartiles:
  "quantile rounding_example (1 / 4) = 18014398509481985 / 18014398509481984"
  "quantile rounding_example (3 / 4) = 2"
  by (simp_all add: quantile_def Let_def rounding_example_def)

lemma dropna_map_Some: "dropna (map Some xs) = xs"
  by (induction xs) simp_all

lemma rounding_example_frame:
  "dropna (map Value (rows (frame_of_values (map Some rounding_example)))) = rounding_example"
  "map Value (rows (frame_of_values (map Some rounding_example))) = map Some rounding_example"
  by (simp_all add: example_frame rounding_example_def)

text \<open>
  Claim C1, with the quartiles, the fences and the median as float64 computes them. For a
  table with one column labelled Value and for every rounding function, detection
  succeeds and keeps every record and its value; record \<open>i\<close> gets \<open>is_anomaly = 1\<close> exactly
  when its value is non-null and lies strictly below the lower fence or strictly above
  the upper fence, and \<open>0\<close> otherwise; the fences are \<open>Q1 - 1.5 * IQR\<close> and \<open>Q3 + 1.5 * IQR\<close>
  with \<open>IQR = Q3 - Q1\<close> and \<open>Q1\<close>, \<open>Q3\<close> the linear-interpolation quartiles of the sorted
  non-null values, each step rounded; a null value is never an anomaly; the score is the
  rounded distance to the median of the non-null values when the record is an anomaly
  and \<open>0\<close> otherwise.
\<close>

theorem detect_anomalies_float_iqr_rule:
  assumes "count_list (columns df) ''Value'' = 1" and "i < length (rows df)"
  shows "\<exists>out. detect_anomalies_float rnd df = Inr out \<and>
           length (rows out) = length (rows df) \<and>
           Value (rows out ! i) = Value (rows df ! i) \<and>
           (let s = sort (dropna (map Value (rows df)));
                Q1 = spec_quartile rnd s (1 / 4);
                Q3 = spec_quartile rnd s (3 / 4);
                IQR = rnd (Q3 - Q1);
                lower = rnd (Q1 - rnd (3 / 2 * IQR));
                upper = rnd (Q3 + rnd (3 / 2 * IQR));
                v = Value (rows df ! i);
                r = rows out ! i
            in (is_anomaly r = 1 \<longleftrightarrow> (\<exists>x. v = Some x \<and> (x < lower \<or> x > upper))) \<and>
               (is_anomaly r = 1 \<or> is_anomaly r = 0) \<and>
               (v = None \<longrightarrow> is_anomaly r = 0) \<and>
               (is_anomaly r = 1 \<longrightarrow>
                  (\<exists>x. v = Some x \<and> anomaly_score r = \<bar>rnd (x - spec_median rnd s)\<bar>)) \<and>
               (is_anomaly r \<noteq> 1 \<longrightarrow> anomaly_score r = 0))"
proof -
  define vs where "vs = dropna (map Value (rows df))"
  define lo where "lo = rnd (spec_quartile rnd (sort vs) (1 / 4) -
      rnd (3 / 2 * rnd (spec_quartile rnd (sort vs) (3 / 4) - spec_quartile rnd (sort vs) (1 / 4))))"
  define hi where "hi = rnd (spec_quartile rnd (sort vs) (3 / 4) +
      rnd (3 / 2 * rnd (spec_quartile rnd (sort vs) (3 / 4) - spec_quartile rnd (sort vs) (1 / 4))))"
  define med where "med = spec_median rnd (sort vs)"
  define out where "out = (if vs = [] then
       \<lparr>columns = labelled_columns (columns df), rows = map (label 0 0) (rows df)\<rparr>
     else \<lparr>columns = labelled_columns (columns df),
           rows = map (\<lambda>r. label (is_anomaly_of lo hi (Value r))
                                  (score_float rnd lo hi med (Value r)) r)
                      (rows df)\<rparr>)"
  have o: "detect_anomalies_float rnd df = Inr out"
    using one_Value_column [OF assms(1)]
    by (simp add: detect_anomalies_float_def Let_def out_def vs_def lo_def hi_def med_def
        quantile_float_spec median_float_spec)
  have body: "length (rows out) = length (rows df) \<and>
        Value (rows out ! i) = Value (rows df ! i) \<and>
        (is_anomaly (rows out ! i) = 1 \<longleftrightarrow>
           (\<exists>x. Value (rows df ! i) = Some x \<and> (x < lo \<or> x > hi))) \<and>
        (is_anomaly (rows out ! i) = 1 \<or> is_anomaly (rows out ! i) = 0) \<and>
        (Value (rows df ! i) = None \<longrightarrow> is_anomaly (rows out ! i) = 0) \<and>
        (is_anomaly (rows out ! i) = 1 \<longrightarrow>
           (\<exists>x. Value (rows df ! i) = Some x \<and>
                anomaly_score (rows out ! i) = \<bar>rnd (x - med)\<bar>)) \<and>
        (is_anomaly (rows out ! i) \<noteq> 1 \<longrightarrow> anomaly_score (rows out ! i) = 0)"
  proof (cases "vs = []")
    case True
    then have v: "Value (rows df ! i) = None"
      using assms(2) by (simp add: vs_def dropna_all_None)
    from True have "rows out = map (label 0 0) (rows df)" by (simp add: out_def)
    then show ?thesis using assms(2) v by (simp add: label_simps)
  next
    case False
    then have "rows out =
            map (\<lambda>r. label (is_anomaly_of lo hi (Value r))
                           (score_float rnd lo hi med (Value r)) r)
                (rows df)"
      by (simp add: out_def)
    then show ?thesis using assms(2)
      by (cases "Value (rows df ! i)")
         (simp_all add: label_simps is_anomaly_of_def score_float_def)
  qed
  show ?thesis
    unfolding Let_def
    by (rule exI [of _ out], rule conjI, rule o)
       (rule body [unfolded lo_def hi_def med_def vs_def])
qed

text \<open>The last record of the series \<open>[1, 2, 3, 4, 5, 100]\<close> under float64 rounding.\<close>

theorem detect_anomalies_float_iqr_rule_witness:
  "count_list (columns (frame_of_values [Some 1, Some 2, Some 3, Some 4, Some 5, Some 100]))
     ''Value'' = 1 \<and>
   (\<exists>out. detect_anomalies_float round64
            (frame_of_values [Some 1, Some 2, Some 3, Some 4, Some 5, Some 100]) = Inr out \<and>
      length (rows out) = 6 \<and>
      Value (rows out ! 5) = Some 100 \<and>
      is_anomaly (rows out ! 5) = 1 \<and> anomaly_score (rows out ! 5) = 193 / 2)"
proof -
  let ?df = "frame_of_values [Some 1, Some 2, Some 3, Some 4, Some 5, Some 100]"
  have c: "count_list (columns ?df) ''Value'' = 1"
    by (simp add: example_frame)
  have i: "5 < length (rows ?df)"
    by (simp add: example_frame)
  have l: "length (rows ?df) = 6" "Value (rows ?df ! 5) = Some 100"
    "sort (dropna (map Value (rows ?df))) = [1, 2, 3, 4, 5, 100]"
    by (simp_all add: example_frame)
  have f: "round64 (9 / 4 - round64 (3 / 2 * round64 (19 / 4 - 9 / 4))) = - (3 / 2)"
    "round64 (19 / 4 + round64 (3 / 2 * round64 (19 / 4 - 9 / 4))) = 17 / 2"
    "round64 (100 - 7 / 2) = 193 / 2"
    by (simp_all add: round64_exact_examples round64_more_examples)
  from detect_anomalies_float_iqr_rule [OF c i, of round64] obtain out
    where o: "detect_anomalies_float round64 ?df = Inr out"
      and "length (rows out) = 6 \<and> Value (rows out ! 5) = Some 100 \<and>
           is_anomaly (rows out ! 5) = 1 \<and> anomaly_score (rows out ! 5) = 193 / 2"
    unfolding l(3) outlier_example_float Let_def f l(1,2)
    by (elim exE conjE) (simp add: round64_more_examples)
  then have "\<exists>out. detect_anomalies_float round64 ?df = Inr out \<and>
      length (rows out) = 6 \<and> Value (rows out ! 5) = Some 100 \<and>
      is_anomaly (rows out ! 5) = 1 \<and> anomaly_score (rows out ! 5) = 193 / 2"
    by (intro exI [of _ out] conjI) simp_all
  with c show ?thesis ..
qed

text \<open>
  On the rounding example the detector in float64 flags no record, while the values
  \<open>-0.5\<close> and \<open>3.5\<close> of its first and last record lie strictly outside the fences
  computed from the exact quartiles.
\<close>

theorem detect_anomalies_float_iqr_rule_counterexample:
  "(\<exists>out. detect_anomalies_float round64 (frame_of_values (map Some rounding_example)) = Inr out \<and>
      map Value (rows out) = map Some rounding_example \<and>
      map is_anomaly (rows out) = [0, 0, 0, 0, 0, 0]) \<and>
   rounding_example ! 0 = - (1 / 2) \<and> rounding_example ! 5 = 7 / 2 \<and>
   - (1 / 2) < quantile rounding_example (1 / 4) -
       3 / 2 * (quantile rounding_example (3 / 4) - quantile rounding_example (1 / 4)) \<and>
   quantile rounding_example (3 / 4) +
       3 / 2 * (quantile rounding_example (3 / 4) - quantile rounding_example (1 / 4)) < 7 / 2"
proof -
  let ?df = "frame_of_values (map Some rounding_example)"
  have f: "round64 (1 - round64 (3 / 2 * round64 (2 - 1))) = - (1 / 2)"
    "round64 (2 + round64 (3 / 2 * round64 (2 - 1))) = 7 / 2"
    by (simp_all add: round64_exact_examples)
  have n: "rounding_example \<noteq> []" by (simp add: rounding_example_def)
  have "detect_anomalies_float round64 ?df =
      Inr \<lparr>columns = labelled_columns canonical_columns,
           rows = map (\<lambda>r. label (is_anomaly_of (- (1 / 2)) (7 / 2) (Value r))
                    (score_float round64 (- (1 / 2)) (7 / 2)
                       (median_float round64 rounding_example) (Value r)) r)
                  (rows ?df)\<rparr>"
    unfolding detect_anomalies_float_def Let_def rounding_example_frame(1)
    using n
    by (simp add: example_frame dropna_map_Some quantile_float_spec
        rounding_example_float_quartiles round64_exact_examples)
  then have a: "\<exists>out. detect_anomalies_float round64 ?df = Inr out \<and>
      map Value (rows out) = map Some rounding_example \<and>
      map is_anomaly (rows out) = [0, 0, 0, 0, 0, 0]"
    by (simp add: example_frame label_simps comp_def is_anomaly_of_def rounding_example_def)
  have b: "rounding_example ! 0 = - (1 / 2)" "rounding_example ! 5 = 7 / 2"
    by (simp_all add: rounding_example_def)
  have c: "- (1 / 2) < quantile rounding_example (1 / 4) -
       3 / 2 * (quantile rounding_example (3 / 4) - quantile rounding_example (1 / 4))"
    "quantile rounding_example (3 / 4) +
       3 / 2 * (quantile rounding_example (3 / 4) - quantile rounding_example (1 / 4)) < 7 / 2"
    unfolding rounding_example_exact_quartiles by simp_all
  from a b c show ?thesis by (intro conjI)
qed

text \<open>
  Claim C4. On the value series \<open>[1, 2, 3, 4, 5, 100]\<close> the detector computes
  \<open>Q1 = 2.25\<close>, \<open>Q3 = 4.75\<close>, \<open>IQR = 2.5\<close>, fences \<open>-1.5\<close> and \<open>8.5\<close> and median \<open>3.5\<close>;
  only the record with value \<open>100\<close> is an anomaly, with score \<open>96.5\<close>, and every other
  record has \<open>is_anomaly = 0\<close> and score \<open>0\<close>.
\<close>

theorem detect_anomalies_example:
  "q1 [1, 2, 3, 4, 5, 100] = 2.25 \<and>
   q3 [1, 2, 3, 4, 5, 100] = 4.75 \<and>
   iqr [1, 2, 3, 4, 5, 100] = 2.5 \<and>
   lower_bound [1, 2, 3, 4, 5, 100] = - 1.5 \<and>
   upper_bound [1, 2, 3, 4, 5, 100] = 8.5 \<and>
   median [1, 2, 3, 4, 5, 100] = 3.5 \<and>
   (\<exists>out. detect_anomalies
            (frame_of_values [Some 1, Some 2, Some 3, Some 4, Some 5, Some 100]) = Inr out \<and>
      map Value (rows out) = [Some 1, Some 2, Some 3, Some 4, Some 5, Some 100] \<and>
      map is_anomaly (rows out) = [0, 0, 0, 0, 0, 1] \<and>
      map anomaly_score (rows out) = [0, 0, 0, 0, 0, 96.5])"
  by (simp add: q1_def q3_def iqr_def lower_bound_def upper_bound_def median_def quantile_def
      detect_anomalies_def example_frame label_simps is_anomaly_of_def score_of_def Let_def)

text \<open>
  Claim C6. When the one value column holds nulls only, detection succeeds and every record
  gets \<open>is_anomaly = 0\<close> and score \<open>0\<close>.
\<close>

theorem detect_anomalies_all_null:
  assumes "count_list (columns df) ''Value'' = 1" and "\<forall>r \<in> set (rows df). Value r = None"
  shows "\<exists>out. detect_anomalies df = Inr out \<and> length (rows out) = length (rows df) \<and>
           (\<forall>r \<in> set (rows out). is_anomaly r = 0 \<and> anomaly_score r = 0)"
proof -
  have "dropna (map Value (rows df)) = []"
    using assms(2) by (simp add: dropna_all_None)
  then show ?thesis using one_Value_column [OF assms(1)]
    by (auto simp: detect_anomalies_def label_simps)
qed

theorem detect_anomalies_all_null_witness:
  "count_list (columns (frame_of_values [None, None])) ''Value'' = 1 \<and>
   map Value (rows (frame_of_values [None, None])) = [None, None] \<and>
   (\<exists>out. detect_anomalies (frame_of_values [None, None]) = Inr out \<and>
      length (rows out) = 2 \<and>
      (\<forall>r \<in> set (rows out). is_anomaly r = 0 \<and> anomaly_score r = 0))"
proof -
  have c: "count_list (columns (frame_of_values [None, None])) ''Value'' = 1"
    by (simp add: example_frame)
  have v: "map Value (rows (frame_of_values [None, None])) = [None, None]"
    by (simp add: example_frame)
  have n: "\<forall>r \<in> set (rows (frame_of_values [None, None])). Value r = None"
    by (simp add: example_frame)
  from detect_anomalies_all_null [OF c n] obtain out
    where o: "detect_anomalies (frame_of_values [None, None]) = Inr out"
      "length (rows out) = length (rows (frame_of_values [None, None]))"
      "\<forall>r \<in> set (rows out). is_anomaly r = 0 \<and> anomaly_score r = 0"
    by blast
  from o(2) have "length (rows out) = 2" by (simp add: example_frame)
  with o(1,3) c v show ?thesis by blast
qed

text \<open>
  Claim C10. When all non-null values are equal to one value \<open>c\<close> (and there is at least
  one), both quartiles are \<open>c\<close>, the IQR is \<open>0\<close>, both fences are \<open>c\<close>, and every record
  gets \<open>is_anomaly = 0\<close> and score \<open>0\<close>.
\<close>

theorem detect_anomalies_constant_series:
  assumes "count_list (columns df) ''Value'' = 1"
    and "\<exists>r \<in> set (rows df). Value r = Some c"
    and "\<forall>r \<in> set (rows df). Value r = None \<or> Value r = Some c"
  shows "(let vs = dropna (map Value (rows df))
          in q1 vs = c \<and> q3 vs = c \<and> iqr vs = 0 \<and> lower_bound vs = c \<and> upper_bound vs = c) \<and>
         (\<exists>out. detect_anomalies df = Inr out \<and> length (rows out) = length (rows df) \<and>
            (\<forall>r \<in> set (rows out). is_anomaly r = 0 \<and> anomaly_score r = 0))"
proof -
  define vs where "vs = dropna (map Value (rows df))"
  have ne: "vs \<noteq> []"
    using assms(2) unfolding vs_def dropna_all_None by force
  have all: "\<forall>v \<in> set vs. v = c"
    using assms(3) unfolding vs_def dropna_set by auto
  have q: "q1 vs = c" "q3 vs = c"
    by (simp_all add: q1_def q3_def quantile_constant [OF ne all])
  then have b: "iqr vs = 0" "lower_bound vs = c" "upper_bound vs = c"
    by (simp_all add: iqr_def lower_bound_def upper_bound_def)
  have z: "is_anomaly_of c c (Value r) = 0 \<and> score_of c c m (Value r) = 0"
    if "r \<in> set (rows df)" for r m
    using assms(3) that by (auto simp: is_anomaly_of_def score_of_def)
  have "detect_anomalies df =
          Inr \<lparr>columns = labelled_columns (columns df),
               rows = map (\<lambda>r. label (is_anomaly_of c c (Value r))
                                      (score_of c c (median vs) (Value r)) r) (rows df)\<rparr>"
    using one_Value_column [OF assms(1)] ne b
    by (simp add: detect_anomalies_def Let_def vs_def [symmetric])
  then show ?thesis using q b z by (auto simp: Let_def vs_def [symmetric] label_simps)
qed

theorem detect_anomalies_constant_series_witness:
  "count_list (columns (frame_of_values [Some 7, None, Some 7])) ''Value'' = 1 \<and>
   map Value (rows (frame_of_values [Some 7, None, Some 7])) = [Some 7, None, Some 7] \<and>
   q1 [7, 7] = 7 \<and> q3 [7, 7] = 7 \<and> iqr [7, 7] = 0 \<and>
   lower_bound [7, 7] = 7 \<and> upper_bound [7, 7] = 7 \<and>
   (\<exists>out. detect_anomalies (frame_of_values [Some 7, None, Some 7]) = Inr out \<and>
      length (rows out) = 3 \<and>
      (\<forall>r \<in> set (rows out). is_anomaly r = 0 \<and> anomaly_score r = 0))"
proof -
  let ?df = "frame_of_values [Some 7, None, Some 7]"
  have c: "count_list (columns ?df) ''Value'' = 1"
    by (simp add: example_frame)
  have v: "map Value (rows ?df) = [Some 7, None, Some 7]"
    by (simp add: example_frame)
  have e: "\<exists>r \<in> set (rows ?df). Value r = Some 7"
    by (simp add: example_frame)
  have n: "\<forall>r \<in> set (rows ?df). Value r = None \<or> Value r = Some 7"
    by (simp add: example_frame)
  have vs: "dropna (map Value (rows ?df)) = [7, 7]"
    by (simp add: example_frame)
  from detect_anomalies_constant_series [OF c e n]
  have q: "q1 [7, 7] = 7 \<and> q3 [7, 7] = 7 \<and> iqr [7, 7] = 0 \<and>
           lower_bound [7, 7] = 7 \<and> upper_bound [7, 7] = 7"
    unfolding vs by (simp add: Let_def)
  from detect_anomalies_constant_series [OF c e n] obtain out
    where o: "detect_anomalies ?df = Inr out" "length (rows out) = length (rows ?df)"
      "\<forall>r \<in> set (rows out). is_anomaly r = 0 \<and> anomaly_score r = 0"
    by blast
  from o(2) have "length (rows out) = 3" by (simp add: example_frame)
  with o(1,3) c v q show ?thesis by blast
qed

section \<open>Properties of the query engine\<close>

lemma split_not_Nil: "split sep s \<noteq> []"
  by (induction s) (simp_all add: Let_def)

lemma join_Cons_hd:
  assumes "ts \<noteq> []"
  shows "join sep ((c # hd ts) # tl ts) = c # join sep ts"
proof (cases ts)
  case Nil
  with assms show ?thesis by simp
next
  case (Cons t us)
  then show ?thesis by (cases us) simp_all
qed

lemma join_Nil_Cons: "ts \<noteq> [] \<Longrightarrow> join sep ([] # ts) = sep # join sep ts"
  by (cases ts) simp_all

lemma join_split: "join sep (split sep s) = s"
  by (induction s) (simp_all add: Let_def split_not_Nil join_Cons_hd join_Nil_Cons)

lemma split_no_sep: "t \<in> set (split sep s) \<Longrightarrow> sep \<notin> set t"
proof (induction s arbitrary: t)
  case Nil
  then show ?case by simp
next
  case (Cons c cs)
  obtain u us where us: "split sep cs = u # us"
    using split_not_Nil [of sep cs] by (cases "split sep cs") auto
  with Cons show ?case by (auto simp: Let_def split: if_splits)
qed

lemma rev_dropWhile_takeWhile:
  "xs = rev (dropWhile P (rev xs)) @ rev (takeWhile P (rev xs))"
proof -
  have "rev (takeWhile P (rev xs) @ dropWhile P (rev xs)) = xs" by simp
  then show ?thesis by (simp only: rev_append)
qed

lemma strip_suffix: "dropWhile isspace s = strip s @ rev (takeWhile isspace (rev (dropWhile isspace s)))"
  unfolding strip_def by (rule rev_dropWhile_takeWhile)

lemma strip_decompose:
  "\<exists>a b. s = a @ strip s @ b \<and> list_all isspace a \<and> list_all isspace b"
proof -
  let ?a = "takeWhile isspace s"
  let ?b = "rev (takeWhile isspace (rev (dropWhile isspace s)))"
  have "s = ?a @ dropWhile isspace s" by simp
  then have "s = ?a @ strip s @ ?b" using strip_suffix [of s] by simp
  moreover have "list_all isspace ?a"
    unfolding list_all_iff using set_takeWhileD by fast
  moreover have "list_all isspace ?b"
    unfolding list_all_iff set_rev using set_takeWhileD by fast
  ultimately show ?thesis by blast
qed

lemma strip_ends:
  assumes "strip s \<noteq> []"
  shows "\<not> isspace (hd (strip s)) \<and> \<not> isspace (last (strip s))"
proof -
  let ?m = "dropWhile isspace s"
  let ?r = "dropWhile isspace (rev ?m)"
  have r: "?r \<noteq> []" using assms by (simp add: strip_def)
  then have l: "\<not> isspace (hd ?r)" by (rule hd_dropWhile)
  have "last (strip s) = hd ?r" using r by (simp add: strip_def last_rev)
  with l have 1: "\<not> isspace (last (strip s))" by simp
  have m: "?m \<noteq> []"
  proof
    assume e: "?m = []"
    have "?r = []" unfolding e by simp
    with r show False by simp
  qed
  then have h: "\<not> isspace (hd ?m)" by (rule hd_dropWhile)
  have "hd ?m = hd (strip s)" using assms strip_suffix [of s] by (metis hd_append2)
  with h have "\<not> isspace (hd (strip s))" by simp
  with 1 show ?thesis by simp
qed

lemma isin_spec: "isin v vals \<longleftrightarrow> spec_in (Some (set vals)) v"
  by (auto simp: isin_def spec_in_def split: option.splits)

lemma country_step:
  "(case f of
      None \<Rightarrow> xs
    | Some s \<Rightarrow> if s = [] then xs else filter (\<lambda>r. isin (g r) (parse_filter s)) xs)
   = filter (\<lambda>r. spec_in (spec_filter_set f) (g r)) xs"
  by (cases f) (simp_all add: spec_filter_set_def isin_spec Let_def spec_in_def)

lemma anomaly_step:
  "(if only_anomalies then filter (\<lambda>r. is_anomaly r = 1) xs else xs)
   = filter (\<lambda>r. \<not> only_anomalies \<or> is_anomaly r = (1::int)) xs"
  by simp

lemma measurements_unfold:
  "measurements df country pollutant only_anomalies limit =
     (let filtered = head limit (filter (spec_matches (spec_filter_set country) (spec_filter_set pollutant)
                                        only_anomalies) (rows df))
      in \<lparr>count = int (length filtered), data = filtered\<rparr>)"
proof -
  have "filter (spec_matches (spec_filter_set country) (spec_filter_set pollutant) only_anomalies) (rows df)
        = filter (\<lambda>r. \<not> only_anomalies \<or> is_anomaly r = 1)
            (filter (\<lambda>r. spec_in (spec_filter_set pollutant) (Pollutant r))
              (filter (\<lambda>r. spec_in (spec_filter_set country) (Country_Label r)) (rows df)))"
    by (auto simp: spec_matches_def intro: filter_cong)
  then show ?thesis
    unfolding measurements_def Let_def country_step anomaly_step by simp
qed

lemma head_nonneg: "0 \<le> k \<Longrightarrow> head k xs = take (nat k) xs"
  by (simp add: head_def)













section \<open>Properties of the loader and the store\<close>

lemma find_col_None: "find_col cols names = None \<longleftrightarrow> set names \<inter> set cols = {}"
  by (induction names) auto

lemma map_error_name_if: "map error_name (if b then [f] else []) = (if b then [error_name f] else [])"
  by simp

lemma error_name_simps:
  "error_name ''country_code'' = ''Country_Code''"
  "error_name ''city'' = ''City''"
  "error_name ''location'' = ''Location''"
  "error_name ''pollutant'' = ''Pollutant''"
  "error_name ''unit'' = ''Unit''"
  "error_name ''value'' = ''Value''"
  "error_name ''last_updated'' = ''Last_Updated''"
  "error_name ''country_label'' = ''Country_Label''"
  by (simp_all add: error_name_def)

lemma filter_if: "filter P (if b then [f] else []) = (if b \<and> P f then [f] else [])"
  by simp

lemma append_if_last: "(if b then xs @ [z] else xs) = xs @ (if b then [z] else [])"
  by simp

lemma missing_logical_spec:
  "missing_logical (resolve cols) = error_names (spec_unresolved cols)"
  unfolding missing_logical_def Let_def append_if_last
  unfolding required_logical_def resolve_def error_names_def
    spec_unresolved_def find_col_None [symmetric] spec_required_fields_def
  by (simp add: map_error_name_if error_name_simps filter_if
        del: find_col.simps split del: if_split cong: if_cong)

lemma filter_two_Nil:
  "filter (\<lambda>f. f \<noteq> a \<and> f \<noteq> b) fs = [] \<Longrightarrow> a \<notin> set fs \<Longrightarrow> b \<notin> set fs \<Longrightarrow> fs = []"
  by (induction fs) (auto split: if_splits)

lemma error_names_Nil: "error_names fs = [] \<longleftrightarrow> fs = []"
proof
  assume e: "error_names fs = []"
  have c: "\<not> (''latitude'' \<in> set fs \<or> ''longitude'' \<in> set fs)"
  proof
    assume "''latitude'' \<in> set fs \<or> ''longitude'' \<in> set fs"
    then have "error_names fs \<noteq> []"
      unfolding error_names_def by (simp only: if_True append_is_Nil_conv) simp
    with e show False by simp
  qed
  then have "error_names fs =
      map error_name (filter (\<lambda>f. f \<noteq> ''latitude'' \<and> f \<noteq> ''longitude'') fs)"
    unfolding error_names_def by (simp only: if_False append_Nil2)
  with e have f: "filter (\<lambda>f. f \<noteq> ''latitude'' \<and> f \<noteq> ''longitude'') fs = []"
    by (simp only: map_is_Nil_conv)
  from c have "''latitude'' \<notin> set fs" and "''longitude'' \<notin> set fs" by simp_all
  with f show "fs = []" by (rule filter_two_Nil)
next
  assume "fs = []"
  then show "error_names fs = []" unfolding error_names_def by simp
qed

lemma normalize_examples:
  "map normalize_column (original_cols (header_without ''Lat'')) =
     [''country_code'', ''city'', ''location'', ''longitude'', ''parameter'',
      ''unit'', ''value'', ''last_updated'', ''country'']"
  "map normalize_column (original_cols (header_without ''Longitude'')) =
     [''country_code'', ''city'', ''location'', ''lat'', ''parameter'',
      ''unit'', ''value'', ''last_updated'', ''country'']"
  "map normalize_column (original_cols (header_without ''Value'')) =
     [''country_code'', ''city'', ''location'', ''lat'', ''longitude'', ''parameter'',
      ''unit'', ''last_updated'', ''country'']"
  by code_simp+


lemma example_csv_cols:
  "map normalize_column (original_cols example_csv) =
     [''country_code'', ''city'', ''location'', ''lat'', ''longitude'', ''parameter'',
      ''unit'', ''value'', ''last_updated'', ''country'']"
  unfolding example_csv_def by code_simp

lemma example_csv_resolve:
  "resolve [''country_code'', ''city'', ''location'', ''lat'', ''longitude'', ''parameter'',
      ''unit'', ''value'', ''last_updated'', ''country''] =
   \<lparr>col_country_code = Some ''country_code'', col_city = Some ''city'',
    col_location = Some ''location'', col_latitude = Some ''lat'',
    col_longitude = Some ''longitude'', col_pollutant = Some ''parameter'',
    col_source_name = None, col_unit = Some ''unit'', col_value = Some ''value'',
    col_last_updated = Some ''last_updated'', col_country_label = Some ''country''\<rparr>"
  by (simp add: resolve_def)

lemma example_csv_renamed:
  "rename (rename_dict
     \<lparr>col_country_code = Some ''country_code'', col_city = Some ''city'',
      col_location = Some ''location'', col_latitude = Some ''lat'',
      col_longitude = Some ''longitude'', col_pollutant = Some ''parameter'',
      col_source_name = Some ''Source_Name'', col_unit = Some ''unit'', col_value = Some ''value'',
      col_last_updated = Some ''last_updated'', col_country_label = Some ''country''\<rparr>)
     [''country_code'', ''city'', ''location'', ''lat'', ''longitude'', ''parameter'',
      ''unit'', ''value'', ''last_updated'', ''country'', ''Source_Name''] =
   [''Country_Code'', ''City'', ''Location'', ''lat'', ''lon'', ''Pollutant'',
    ''Unit'', ''Value'', ''Last_Updated'', ''Country_Label'', ''Source_Name'']"
  by (simp add: rename_def rename_dict_def)

lemma load_example_csv:
  "\<exists>d. load_and_prepare_data (Table example_csv) = Inr d \<and>
       map Country_Label (rows d) = [Some ''India'', Some ''United States''] \<and>
       map Source_Name (rows d) = [Some ''Unknown Source'', Some ''Unknown Source''] \<and>
       map Value (rows d) = [Some 90, None] \<and>
       map lon (rows d) = [Some 77.2, None] \<and>
       map is_anomaly (rows d) = [0, 0]"
proof -
  have m: "missing_logical
     \<lparr>col_country_code = Some ''country_code'', col_city = Some ''city'',
      col_location = Some ''location'', col_latitude = Some ''lat'',
      col_longitude = Some ''longitude'', col_pollutant = Some ''parameter'',
      col_source_name = None, col_unit = Some ''unit'', col_value = Some ''value'',
      col_last_updated = Some ''last_updated'', col_country_label = Some ''country''\<rparr> = []"
    by (simp add: missing_logical_def required_logical_def)
  have b: "body example_csv =
        [[text_cell ''IN'', text_cell ''Delhi'', text_cell ''ITO'', number_cell ''28.6'' 28.6, number_cell ''77.2'' 77.2,
          text_cell ''pm25'', text_cell ''ug/m3'', number_cell ''90'' 90, text_cell ''2024-01-01'', text_cell ''India''],
         [text_cell ''US'', text_cell ''Boston'', text_cell ''Kenmore'', number_cell ''42.3'' 42.3, text_cell ''west'',
          text_cell ''no2'', text_cell ''ppm'', text_cell ''n/a'', text_cell ''2024-01-02'', text_cell ''United States'']]"
    by (simp add: example_csv_def)
  have q: "quantile [90] q = 90" "median [90] = 90" for q
    by (simp_all add: quantile_def median_def)
  show ?thesis
    unfolding load_and_prepare_data_def csv_file.case Let_def example_csv_cols
      example_csv_resolve m
    by (simp add: label_def measurement.extend_def labelled.fields_def setitem_column_def example_csv_renamed b pad_def setitem_scalar_def
        detect_anomalies_def to_measurement_def cell_at_def text_cell_def number_cell_def label_simps
        lower_bound_def upper_bound_def q1_def q3_def iqr_def q is_anomaly_of_def score_of_def
        Let_def)
qed

lemma duplicate_csv_cols:
  "map normalize_column (original_cols duplicate_csv) =
     [''country_code'', ''city'', ''location'', ''latitude'', ''longitude'', ''pollutant'',
      ''source'', ''unit'', ''value'', ''date'', ''country'', ''country'']"
  unfolding duplicate_csv_def by code_simp

lemma duplicate_csv_resolve:
  "resolve [''country_code'', ''city'', ''location'', ''latitude'', ''longitude'', ''pollutant'',
      ''source'', ''unit'', ''value'', ''date'', ''country'', ''country''] =
   \<lparr>col_country_code = Some ''country_code'', col_city = Some ''city'',
    col_location = Some ''location'', col_latitude = Some ''latitude'',
    col_longitude = Some ''longitude'', col_pollutant = Some ''pollutant'',
    col_source_name = Some ''source'', col_unit = Some ''unit'', col_value = Some ''value'',
    col_last_updated = Some ''date'', col_country_label = Some ''country''\<rparr>"
  by (simp add: resolve_def)

lemma duplicate_csv_renamed:
  "rename (rename_dict
     \<lparr>col_country_code = Some ''country_code'', col_city = Some ''city'',
      col_location = Some ''location'', col_latitude = Some ''latitude'',
      col_longitude = Some ''longitude'', col_pollutant = Some ''pollutant'',
      col_source_name = Some ''source'', col_unit = Some ''unit'', col_value = Some ''value'',
      col_last_updated = Some ''date'', col_country_label = Some ''country''\<rparr>)
     [''country_code'', ''city'', ''location'', ''latitude'', ''longitude'', ''pollutant'',
      ''source'', ''unit'', ''value'', ''date'', ''country'', ''country''] =
   [''Country_Code'', ''City'', ''Location'', ''lat'', ''lon'', ''Pollutant'',
    ''Source_Name'', ''Unit'', ''Value'', ''Last_Updated'', ''Country_Label'', ''Country_Label'']"
  by (simp add: rename_def rename_dict_def)

lemma load_duplicate_csv:
  "\<exists>d. load_and_prepare_data (Table duplicate_csv) = Inr d \<and>
       columns d =
         [''Country_Code'', ''City'', ''Location'', ''lat'', ''lon'', ''Pollutant'',
          ''Source_Name'', ''Unit'', ''Value'', ''Last_Updated'', ''Country_Label'',
          ''Country_Label'', ''is_anomaly'', ''anomaly_score''] \<and>
       map Country_Label (rows d) = [Some ''Bharat''] \<and>
       map Value (rows d) = [Some 90]"
proof -
  have m: "missing_logical
     \<lparr>col_country_code = Some ''country_code'', col_city = Some ''city'',
      col_location = Some ''location'', col_latitude = Some ''latitude'',
      col_longitude = Some ''longitude'', col_pollutant = Some ''pollutant'',
      col_source_name = Some ''source'', col_unit = Some ''unit'', col_value = Some ''value'',
      col_last_updated = Some ''date'', col_country_label = Some ''country''\<rparr> = []"
    by (simp add: missing_logical_def required_logical_def)
  have b: "body duplicate_csv =
        [[text_cell ''IN'', text_cell ''Delhi'', text_cell ''ITO'', number_cell ''28.6'' 28.6,
          number_cell ''77.2'' 77.2, text_cell ''pm25'', text_cell ''CPCB'', text_cell ''ug/m3'',
          number_cell ''90'' 90, text_cell ''2024-01-01'', text_cell ''India'',
          text_cell ''Bharat'']]"
    by (simp add: duplicate_csv_def)
  have q: "quantile [90] q = 90" "median [90] = 90" for q
    by (simp_all add: quantile_def median_def)
  show ?thesis
    unfolding load_and_prepare_data_def csv_file.case Let_def duplicate_csv_cols
      duplicate_csv_resolve m
    by (simp add: label_def measurement.extend_def labelled.fields_def setitem_column_def
        labelled_columns_def
        duplicate_csv_renamed b pad_def setitem_scalar_def
        detect_anomalies_def to_measurement_def cell_at_def text_cell_def number_cell_def label_simps
        lower_bound_def upper_bound_def q1_def q3_def iqr_def q is_anomaly_of_def score_of_def
        Let_def)
qed

lemma duplicate_summary_on:
  "columns d =
         [''Country_Code'', ''City'', ''Location'', ''lat'', ''lon'', ''Pollutant'',
          ''Source_Name'', ''Unit'', ''Value'', ''Last_Updated'', ''Country_Label'',
          ''Country_Label'', ''is_anomaly'', ''anomaly_score''] \<Longrightarrow>
   summary_on d = Inl (ValueError_duplicate ''Country_Label'') \<and>
   map_data_on d (Some ''India'') None False 10 = Inl (ValueError_duplicate ''Country_Label'') \<and>
   map_data_on d None None False 10 = Inr (measurements d None None False 10) \<and>
   filters_on d = Inl AttributeError"
  by (simp add: summary_on_def map_data_on_def filters_on_def series_error_def
      projection_error_def response_columns_def)

lemma get_df_loaded: "state_df st = Some df \<Longrightarrow> get_df file st = (Inr df, st)"
  by (simp add: get_df_def)

lemma map_data_loaded:
  "state_df st = Some df \<Longrightarrow>
   map_data file st country pollutant only_anomalies limit =
     (map_data_on df country pollutant only_anomalies limit, st)"
  by (simp add: map_data_def get_df_loaded)


lemma series_error_one: "count_list cols name = 1 \<Longrightarrow> series_error cols name e = None"
  using count_list_0_iff [of cols name] by (simp add: series_error_def)

lemma projection_error_none:
  "set response_columns \<subseteq> set cols \<Longrightarrow> projection_error cols = None"
  by (auto simp: projection_error_def Let_def filter_empty_conv)

lemma map_data_on_unique:
  assumes "count_list (columns df) ''Country_Label'' = 1"
    and "count_list (columns df) ''Pollutant'' = 1"
    and "count_list (columns df) ''is_anomaly'' = 1"
    and "set response_columns \<subseteq> set (columns df)"
  shows "map_data_on df country pollutant only_anomalies limit =
           Inr (measurements df country pollutant only_anomalies limit)"
  by (simp add: map_data_on_def series_error_one assms projection_error_none)


lemma example_dataset_columns:
  "count_list (columns example_dataset) ''Country_Label'' = 1"
  "count_list (columns example_dataset) ''Pollutant'' = 1"
  "count_list (columns example_dataset) ''is_anomaly'' = 1"
  "count_list (columns example_dataset) ''City'' = 1"
  "count_list (columns example_dataset) ''Value'' = 1"
  "set response_columns \<subseteq> set (columns example_dataset)"
  by (simp_all add: example_dataset_def labelled_columns_def setitem_column_def
      canonical_columns_def response_columns_def)

text \<open>
  Every dataset that the loader returns carries the thirteen labels of the response, and
  the label Value names one column of it: the candidate names of the eleven logical
  fields are pairwise different, so the renaming gives each field its standard label.
\<close>

lemma find_col_Some:
  "find_col cols names = Some n \<Longrightarrow> n \<in> set cols \<and> n \<in> set names"
  by (induction names) (auto split: if_splits)


lemma missing_logical_Nil:
  assumes "missing_logical r = []"
  shows "col_country_code r \<noteq> None" "col_city r \<noteq> None" "col_location r \<noteq> None"
    "col_latitude r \<noteq> None" "col_longitude r \<noteq> None" "col_pollutant r \<noteq> None"
    "col_unit r \<noteq> None" "col_value r \<noteq> None" "col_last_updated r \<noteq> None"
    "col_country_label r \<noteq> None"
  using assms
  by (simp_all add: missing_logical_def required_logical_def Let_def split: if_splits)

lemma count_list_labelled_columns:
  "count_list (labelled_columns cols) ''Value'' = count_list cols ''Value''"
  by (simp add: labelled_columns_def setitem_column_def)

lemma labelled_columns_set:
  "set (labelled_columns cols) = set cols \<union> {''is_anomaly'', ''anomaly_score''}"
  by (auto simp: labelled_columns_def setitem_column_def)

lemma detect_anomalies_columns:
  assumes "detect_anomalies df = Inr d"
  shows "columns d = labelled_columns (columns df)" and "count_list (columns df) ''Value'' = 1"
proof -
  from assms have v: "''Value'' \<in> set (columns df)" "\<not> 1 < count_list (columns df) ''Value''"
    by (auto simp: detect_anomalies_def split: if_splits)
  with assms show "columns d = labelled_columns (columns df)"
    by (auto simp: detect_anomalies_def Let_def split: if_splits)
  from v count_list_0_iff [of "columns df" "''Value''"]
  show "count_list (columns df) ''Value'' = 1" by simp
qed


lemma rename_mem:
  "c \<in> set cols \<Longrightarrow> map_of d (Some c) = Some new \<Longrightarrow> new \<in> set (rename d cols)"
  by (force simp: rename_def)

lemma rename_resolved:
  assumes r: "r = \<lparr>col_country_code = Some n1, col_city = Some n2, col_location = Some n3,
      col_latitude = Some n4, col_longitude = Some n5, col_pollutant = Some n6,
      col_source_name = Some n7, col_unit = Some n8, col_value = Some n9,
      col_last_updated = Some n10, col_country_label = Some n11\<rparr>"
    and c: "n1 \<in> set [''country_code'', ''countrycode'', ''code'']"
      "n2 \<in> set [''city'']"
      "n3 \<in> set [''location'', ''station'', ''site'']"
      "n4 \<in> set [''latitude'', ''lat'']"
      "n5 \<in> set [''longitude'', ''lon'']"
      "n6 \<in> set [''pollutant'', ''parameter'']"
      "n7 \<in> set [''source_name'', ''sourcename'', ''source'', ''Source_Name'']"
      "n8 \<in> set [''unit'']"
      "n9 \<in> set [''value'', ''concentration'']"
      "n10 \<in> set [''last_updated'', ''date_local'', ''date'', ''timestamp'']"
      "n11 \<in> set [''country_label'', ''country'']"
    and m: "n1 \<in> set cols" "n2 \<in> set cols" "n3 \<in> set cols" "n4 \<in> set cols"
      "n5 \<in> set cols" "n6 \<in> set cols" "n7 \<in> set cols" "n8 \<in> set cols"
      "n9 \<in> set cols" "n10 \<in> set cols" "n11 \<in> set cols"
  shows "''Country_Code'' \<in> set (rename (rename_dict r) cols)"
    "''City'' \<in> set (rename (rename_dict r) cols)"
    "''Location'' \<in> set (rename (rename_dict r) cols)"
    "''lat'' \<in> set (rename (rename_dict r) cols)"
    "''lon'' \<in> set (rename (rename_dict r) cols)"
    "''Pollutant'' \<in> set (rename (rename_dict r) cols)"
    "''Source_Name'' \<in> set (rename (rename_dict r) cols)"
    "''Unit'' \<in> set (rename (rename_dict r) cols)"
    "''Value'' \<in> set (rename (rename_dict r) cols)"
    "''Last_Updated'' \<in> set (rename (rename_dict r) cols)"
    "''Country_Label'' \<in> set (rename (rename_dict r) cols)"
proof -
  define kind :: "string \<Rightarrow> nat" where "kind = (\<lambda>s.
     if s \<in> set [''country_code'', ''countrycode'', ''code''] then 1
     else if s \<in> set [''city''] then 2
     else if s \<in> set [''location'', ''station'', ''site''] then 3
     else if s \<in> set [''latitude'', ''lat''] then 4
     else if s \<in> set [''longitude'', ''lon''] then 5
     else if s \<in> set [''pollutant'', ''parameter''] then 6
     else if s \<in> set [''source_name'', ''sourcename'', ''source'', ''Source_Name''] then 7
     else if s \<in> set [''unit''] then 8
     else if s \<in> set [''value'', ''concentration''] then 9
     else if s \<in> set [''last_updated'', ''date_local'', ''date'', ''timestamp''] then 10
     else 11)"
  have a: "\<forall>n \<in> set [''country_code'', ''countrycode'', ''code'']. kind n = 1"
    "\<forall>n \<in> set [''city'']. kind n = 2"
    "\<forall>n \<in> set [''location'', ''station'', ''site'']. kind n = 3"
    "\<forall>n \<in> set [''latitude'', ''lat'']. kind n = 4"
    "\<forall>n \<in> set [''longitude'', ''lon'']. kind n = 5"
    "\<forall>n \<in> set [''pollutant'', ''parameter'']. kind n = 6"
    "\<forall>n \<in> set [''source_name'', ''sourcename'', ''source'', ''Source_Name'']. kind n = 7"
    "\<forall>n \<in> set [''unit'']. kind n = 8"
    "\<forall>n \<in> set [''value'', ''concentration'']. kind n = 9"
    "\<forall>n \<in> set [''last_updated'', ''date_local'', ''date'', ''timestamp'']. kind n = 10"
    "\<forall>n \<in> set [''country_label'', ''country'']. kind n = 11"
    by (simp_all add: kind_def)
  note k = a(1) [rule_format, OF c(1)] a(2) [rule_format, OF c(2)] a(3) [rule_format, OF c(3)]
    a(4) [rule_format, OF c(4)] a(5) [rule_format, OF c(5)] a(6) [rule_format, OF c(6)]
    a(7) [rule_format, OF c(7)] a(8) [rule_format, OF c(8)] a(9) [rule_format, OF c(9)]
    a(10) [rule_format, OF c(10)] a(11) [rule_format, OF c(11)]
  have "distinct (map kind [n1, n2, n3, n4, n5, n6, n7, n8, n9, n10, n11])"
    by (simp add: k)
  then have d: "distinct [n1, n2, n3, n4, n5, n6, n7, n8, n9, n10, n11]"
    by (simp only: distinct_map)
  have l: "map_of (rename_dict r) (Some n1) = Some ''Country_Code''"
    "map_of (rename_dict r) (Some n2) = Some ''City''"
    "map_of (rename_dict r) (Some n3) = Some ''Location''"
    "map_of (rename_dict r) (Some n4) = Some ''lat''"
    "map_of (rename_dict r) (Some n5) = Some ''lon''"
    "map_of (rename_dict r) (Some n6) = Some ''Pollutant''"
    "map_of (rename_dict r) (Some n7) = Some ''Source_Name''"
    "map_of (rename_dict r) (Some n8) = Some ''Unit''"
    "map_of (rename_dict r) (Some n9) = Some ''Value''"
    "map_of (rename_dict r) (Some n10) = Some ''Last_Updated''"
    "map_of (rename_dict r) (Some n11) = Some ''Country_Label''"
    using d distinct_rev [of "[n1, n2, n3, n4, n5, n6, n7, n8, n9, n10, n11]"]
    by (simp_all add: rename_dict_def r)
  show "''Country_Code'' \<in> set (rename (rename_dict r) cols)" by (rule rename_mem [OF m(1) l(1)])
  show "''City'' \<in> set (rename (rename_dict r) cols)" by (rule rename_mem [OF m(2) l(2)])
  show "''Location'' \<in> set (rename (rename_dict r) cols)" by (rule rename_mem [OF m(3) l(3)])
  show "''lat'' \<in> set (rename (rename_dict r) cols)" by (rule rename_mem [OF m(4) l(4)])
  show "''lon'' \<in> set (rename (rename_dict r) cols)" by (rule rename_mem [OF m(5) l(5)])
  show "''Pollutant'' \<in> set (rename (rename_dict r) cols)" by (rule rename_mem [OF m(6) l(6)])
  show "''Source_Name'' \<in> set (rename (rename_dict r) cols)" by (rule rename_mem [OF m(7) l(7)])
  show "''Unit'' \<in> set (rename (rename_dict r) cols)" by (rule rename_mem [OF m(8) l(8)])
  show "''Value'' \<in> set (rename (rename_dict r) cols)" by (rule rename_mem [OF m(9) l(9)])
  show "''Last_Updated'' \<in> set (rename (rename_dict r) cols)" by (rule rename_mem [OF m(10) l(10)])
  show "''Country_Label'' \<in> set (rename (rename_dict r) cols)" by (rule rename_mem [OF m(11) l(11)])
qed


lemma load_columns:
  assumes "load_and_prepare_data file = Inr d"
  shows "set response_columns \<subseteq> set (columns d)" and "count_list (columns d) ''Value'' = 1"
proof -
  from assms obtain t where t: "file = Table t"
    by (cases "file") (simp_all add: load_and_prepare_data_def)
  define cols where "cols = map normalize_column (original_cols t)"
  define r where "r = resolve cols"
  define cols1 where "cols1 = (if col_source_name r = None
     then setitem_column cols ''Source_Name'' else cols)"
  define r1 where "r1 = (if col_source_name r = None
     then r\<lparr>col_source_name := Some ''Source_Name''\<rparr> else r)"
  from assms have m: "missing_logical r = []"
    unfolding t load_and_prepare_data_def csv_file.case Let_def cols_def [symmetric]
      r_def [symmetric]
    by (simp split: if_splits)
  from assms m obtain rs where
    dt: "detect_anomalies \<lparr>columns = rename (rename_dict r1) cols1, rows = rs\<rparr> = Inr d"
    unfolding t load_and_prepare_data_def csv_file.case Let_def cols_def [symmetric]
      r_def [symmetric] cols1_def r1_def
    by (simp split: if_splits)
  note f = missing_logical_Nil [OF m]
  from f obtain n1 n2 n3 n4 n5 n6 n8 n9 n10 n11 where n:
    "col_country_code r = Some n1" "col_city r = Some n2" "col_location r = Some n3"
    "col_latitude r = Some n4" "col_longitude r = Some n5" "col_pollutant r = Some n6"
    "col_unit r = Some n8" "col_value r = Some n9" "col_last_updated r = Some n10"
    "col_country_label r = Some n11"
    by fastforce
  have g: "find_col cols [''country_code'', ''countrycode'', ''code''] = Some n1"
    "find_col cols [''city''] = Some n2"
    "find_col cols [''location'', ''station'', ''site''] = Some n3"
    "find_col cols [''latitude'', ''lat''] = Some n4"
    "find_col cols [''longitude'', ''lon''] = Some n5"
    "find_col cols [''pollutant'', ''parameter''] = Some n6"
    "find_col cols [''unit''] = Some n8"
    "find_col cols [''value'', ''concentration''] = Some n9"
    "find_col cols [''last_updated'', ''date_local'', ''date'', ''timestamp''] = Some n10"
    "find_col cols [''country_label'', ''country''] = Some n11"
    using n by (simp_all add: r_def resolve_def)
  have s: "col_source_name r = find_col cols [''source_name'', ''sourcename'', ''source'']"
    by (simp add: r_def resolve_def)
  obtain n7 where n7: "col_source_name r1 = Some n7" "n7 \<in> set cols1"
    "n7 \<in> set [''source_name'', ''sourcename'', ''source'', ''Source_Name'']"
  proof (cases "col_source_name r")
    case None
    then have "col_source_name r1 = Some ''Source_Name''" "''Source_Name'' \<in> set cols1"
      "''Source_Name'' \<in> set [''source_name'', ''sourcename'', ''source'', ''Source_Name'']"
      by (simp_all add: r1_def cols1_def setitem_column_def)
    then show ?thesis by (rule that)
  next
    case (Some x)
    with s have "find_col cols [''source_name'', ''sourcename'', ''source''] = Some x" by simp
    note x = find_col_Some [OF this]
    have w: "set [''source_name'', ''sourcename'', ''source''] \<subseteq>
        set [''source_name'', ''sourcename'', ''source'', ''Source_Name'']"
      by simp
    have "col_source_name r1 = Some x" "x \<in> set cols1"
      using Some x [THEN conjunct1] by (simp_all add: r1_def cols1_def)
    moreover have "x \<in> set [''source_name'', ''sourcename'', ''source'', ''Source_Name'']"
      using w x [THEN conjunct2] by (rule subsetD)
    ultimately show ?thesis by (rule that)
  qed
  have sub: "x \<in> set cols \<Longrightarrow> x \<in> set cols1" for x
    by (simp add: cols1_def setitem_column_def)
  have r1: "r1 = \<lparr>col_country_code = Some n1, col_city = Some n2, col_location = Some n3,
      col_latitude = Some n4, col_longitude = Some n5, col_pollutant = Some n6,
      col_source_name = Some n7, col_unit = Some n8, col_value = Some n9,
      col_last_updated = Some n10, col_country_label = Some n11\<rparr>"
    using n n7(1) by (simp add: r1_def split: if_splits)
  note h = g [THEN find_col_Some]
  note mem = rename_resolved [OF r1
      h(1) [THEN conjunct2] h(2) [THEN conjunct2] h(3) [THEN conjunct2] h(4) [THEN conjunct2]
      h(5) [THEN conjunct2] h(6) [THEN conjunct2] n7(3) h(7) [THEN conjunct2]
      h(8) [THEN conjunct2] h(9) [THEN conjunct2] h(10) [THEN conjunct2]
      h(1) [THEN conjunct1, THEN sub] h(2) [THEN conjunct1, THEN sub]
      h(3) [THEN conjunct1, THEN sub] h(4) [THEN conjunct1, THEN sub]
      h(5) [THEN conjunct1, THEN sub] h(6) [THEN conjunct1, THEN sub] n7(2)
      h(7) [THEN conjunct1, THEN sub] h(8) [THEN conjunct1, THEN sub]
      h(9) [THEN conjunct1, THEN sub] h(10) [THEN conjunct1, THEN sub]]
  note dc = detect_anomalies_columns [OF dt]
  have c: "columns d = labelled_columns (rename (rename_dict r1) cols1)"
    using dc(1) by simp
  show "set response_columns \<subseteq> set (columns d)"
    unfolding c labelled_columns_set response_columns_def using mem by simp
  show "count_list (columns d) ''Value'' = 1"
    unfolding c count_list_labelled_columns using dc(2) by simp
qed

text \<open>
  On the dataset loaded from the table with two country columns, a query with a country
  filter fails, and a query without filters reports the label of the last of the two
  columns.
\<close>

lemma duplicate_csv_map_data:
  "\<exists>d r. load_and_prepare_data (Table duplicate_csv) = Inr d \<and>
       fst (map_data Missing \<lparr>state_df = Some d, load_calls = 1\<rparr> (Some ''India'') None False 10) =
         Inl (ValueError_duplicate ''Country_Label'') \<and>
       fst (map_data Missing \<lparr>state_df = Some d, load_calls = 1\<rparr> None None False 10) = Inr r \<and>
       map Country_Label (data r) = [Some ''Bharat'']"
proof -
  from load_duplicate_csv obtain d
    where dd: "load_and_prepare_data (Table duplicate_csv) = Inr d \<and>
       columns d =
         [''Country_Code'', ''City'', ''Location'', ''lat'', ''lon'', ''Pollutant'',
          ''Source_Name'', ''Unit'', ''Value'', ''Last_Updated'', ''Country_Label'',
          ''Country_Label'', ''is_anomaly'', ''anomaly_score''] \<and>
       map Country_Label (rows d) = [Some ''Bharat''] \<and>
       map Value (rows d) = [Some 90]" ..
  note l = dd [THEN conjunct1]
  note c = dd [THEN conjunct2, THEN conjunct1]
  note v = dd [THEN conjunct2, THEN conjunct2, THEN conjunct1]
  note e = duplicate_summary_on [OF c]
  have a: "fst (map_data Missing \<lparr>state_df = Some d, load_calls = 1\<rparr> (Some ''India'') None False 10) =
         Inl (ValueError_duplicate ''Country_Label'')"
    by (simp add: map_data_def get_df_def e)
  have b: "fst (map_data Missing \<lparr>state_df = Some d, load_calls = 1\<rparr> None None False 10) =
         Inr (measurements d None None False 10)"
    by (simp add: map_data_def get_df_def e)
  from v have "length (rows d) = 1" by (metis length_map length_Cons list.size(3) One_nat_def)
  then have g: "map Country_Label (data (measurements d None None False 10)) = [Some ''Bharat'']"
    using v by (simp add: measurements_def Let_def head_def)
  show ?thesis by (rule exI [of _ d], rule exI [of _ "measurements d None None False 10"])
      (intro conjI l a b g)
qed

section \<open>The claims about the query engine, the loader and the store\<close>


lemma parse_example:
  "parse_filter ''India, United States'' = [''India'', ''United States'']"
  "parse_filter ''pm25'' = [''pm25'']"
  by (simp_all add: parse_filter_def strip_def isspace_def Let_def)

text \<open>
  Claim C3, for a limit that is not negative. On a loaded store whose dataset carries the
  labels Country_Label, Pollutant and is_anomaly once each (and every label of the
  response), \<open>map_data\<close> answers from the stored dataset and leaves the store as it is; the
  query returns the records that match (no country filter or the label is in the set, no
  pollutant filter or the pollutant is in the set, not only-anomalies or
  \<open>is_anomaly = 1\<close>), in dataset order, cut to the first \<open>k\<close>; the count is the minimum of
  the number of matches and \<open>k\<close>.
\<close>

theorem map_data_filter_limit:
  assumes "0 \<le> k" and "state_df st = Some df"
    and "count_list (columns df) ''Country_Label'' = 1"
    and "count_list (columns df) ''Pollutant'' = 1"
    and "count_list (columns df) ''is_anomaly'' = 1"
    and "set response_columns \<subseteq> set (columns df)"
  shows "map_data file st country pollutant only_anomalies k =
           (Inr (measurements df country pollutant only_anomalies k), st) \<and>
         data (measurements df country pollutant only_anomalies k) =
           take (nat k) (filter (spec_matches (spec_filter_set country) (spec_filter_set pollutant)
                                   only_anomalies) (rows df)) \<and>
         count (measurements df country pollutant only_anomalies k) =
           min (int (length (filter (spec_matches (spec_filter_set country)
                                       (spec_filter_set pollutant) only_anomalies) (rows df)))) k \<and>
         int (length (data (measurements df country pollutant only_anomalies k))) \<le> k"
proof -
  have "map_data file st country pollutant only_anomalies k =
          (Inr (measurements df country pollutant only_anomalies k), st)"
    by (simp only: map_data_loaded [OF assms(2)] map_data_on_unique [OF assms(3-6)])
  then show ?thesis
    using assms(1) by (auto simp: measurements_unfold Let_def head_nonneg)
qed

text \<open>The query for India or the United States and pm25 with limit 2 on the example.\<close>

theorem map_data_filter_limit_witness:
  "(0::int) \<le> 2 \<and> state_df loaded_example = Some example_dataset \<and>
   count_list (columns example_dataset) ''Country_Label'' = 1 \<and>
   count_list (columns example_dataset) ''Pollutant'' = 1 \<and>
   count_list (columns example_dataset) ''is_anomaly'' = 1 \<and>
   map_data Missing loaded_example (Some ''India, United States'') (Some ''pm25'') False 2 =
     (Inr (measurements example_dataset (Some ''India, United States'') (Some ''pm25'') False 2),
      loaded_example) \<and>
   map Value (data (measurements example_dataset (Some ''India, United States'') (Some ''pm25'')
                      False 2)) = [Some 1, Some 3] \<and>
   count (measurements example_dataset (Some ''India, United States'') (Some ''pm25'') False 2) = 2"
proof -
  have m: "filter (spec_matches (spec_filter_set (Some ''India, United States''))
                     (spec_filter_set (Some ''pm25'')) False) (rows example_dataset) =
           [rows example_dataset ! 0, rows example_dataset ! 2, rows example_dataset ! 5]"
    by (simp add: spec_matches_def spec_in_def spec_filter_set_def parse_example
          example_dataset_def label_simps mk_row_def row_of_value_def)
  have v: "map Value [rows example_dataset ! 0, rows example_dataset ! 2] = [Some 1, Some 3]"
    by (simp add: example_dataset_def label_simps mk_row_def row_of_value_def)
  have k: "(0::int) \<le> 2" by simp
  have s: "state_df loaded_example = Some example_dataset" by (simp add: loaded_example_def)
  note t = map_data_filter_limit [OF k s example_dataset_columns(1,2,3,6),
      of Missing "Some ''India, United States''" "Some ''pm25''" False]
  from t have a: "map_data Missing loaded_example (Some ''India, United States'') (Some ''pm25'')
      False 2 =
     (Inr (measurements example_dataset (Some ''India, United States'') (Some ''pm25'') False 2),
      loaded_example)"
    by (rule conjunct1)
  from t [THEN conjunct2, THEN conjunct1]
  have b: "map Value (data (measurements example_dataset (Some ''India, United States'')
      (Some ''pm25'') False 2)) = [Some 1, Some 3]"
    unfolding m using v by (simp add: numeral_2_eq_2)
  from t [THEN conjunct2, THEN conjunct2, THEN conjunct1]
  have c: "count (measurements example_dataset (Some ''India, United States'') (Some ''pm25'')
      False 2) = 2"
    unfolding m by simp
  from k s example_dataset_columns(1,2,3) a b c show ?thesis by (intro conjI)
qed

text \<open>
  With limit \<open>-1\<close> the query on the seven example records returns six of them and the
  count \<open>6\<close>, which is neither at most \<open>-1\<close> records nor the minimum of \<open>7\<close> and \<open>-1\<close>.
\<close>

theorem map_data_filter_limit_counterexample:
  "map_data Missing loaded_example None None False (- 1) =
     (Inr (measurements example_dataset None None False (- 1)), loaded_example) \<and>
   count (measurements example_dataset None None False (- 1)) = 6 \<and>
   length (data (measurements example_dataset None None False (- 1))) = 6 \<and>
   length (filter (spec_matches (spec_filter_set None) (spec_filter_set None) False)
             (rows example_dataset)) = 7 \<and>
   count (measurements example_dataset None None False (- 1)) \<noteq>
     min (int (length (filter (spec_matches (spec_filter_set None) (spec_filter_set None) False)
                         (rows example_dataset)))) (- 1)"
proof -
  have s: "state_df loaded_example = Some example_dataset" by (simp add: loaded_example_def)
  have a: "map_data Missing loaded_example None None False (- 1) =
     (Inr (measurements example_dataset None None False (- 1)), loaded_example)"
    by (simp only: map_data_loaded [OF s] map_data_on_unique [OF example_dataset_columns(1,2,3,6)])
  have b: "count (measurements example_dataset None None False (- 1)) = 6"
    "length (data (measurements example_dataset None None False (- 1))) = 6"
    "length (filter (spec_matches (spec_filter_set None) (spec_filter_set None) False)
             (rows example_dataset)) = 7"
    by (simp_all add: measurements_def head_def Let_def spec_matches_def spec_in_def
        spec_filter_set_def example_dataset_def)
  have c: "count (measurements example_dataset None None False (- 1)) \<noteq>
     min (int (length (filter (spec_matches (spec_filter_set None) (spec_filter_set None) False)
                         (rows example_dataset)))) (- 1)"
    unfolding b by simp
  from a b c show ?thesis by (intro conjI)
qed

lemma parse_filter_map: "parse_filter s = filter (\<lambda>u. u \<noteq> []) (map strip (split (CHR '','') s))"
proof -
  have "concat (map (\<lambda>c. if strip c \<noteq> [] then [strip c] else []) ts) =
        filter (\<lambda>u. u \<noteq> []) (map strip ts)" for ts
    by (induction ts) simp_all
  then show ?thesis by (simp add: parse_filter_def)
qed

lemma spec_in_None: "spec_in None v"
  by (simp add: spec_in_def)

text \<open>
  Claim C7. The parsed filter list consists of the comma-separated tokens of the string,
  each with its surrounding whitespace removed, without the empty ones;
  \<open>India, United States\<close> parses to the two country names; a filter string that is absent
  or empty does not restrict the result.
\<close>

theorem parse_filter_tokens:
  "(\<exists>ts. join (CHR '','') ts = s \<and> (\<forall>t \<in> set ts. CHR '','' \<notin> set t) \<and>
         parse_filter s = filter (\<lambda>u. u \<noteq> []) (map strip ts)) \<and>
   (\<forall>t. \<exists>a b. t = a @ strip t @ b \<and> list_all isspace a \<and> list_all isspace b) \<and>
   (\<forall>u \<in> set (parse_filter s). u \<noteq> [] \<and> \<not> isspace (hd u) \<and> \<not> isspace (last u)) \<and>
   parse_filter ''India, United States'' = [''India'', ''United States''] \<and>
   (f = None \<or> f = Some [] \<longrightarrow>
      data (measurements df f pollutant only_anomalies k) =
        head k (filter (\<lambda>r. spec_in (spec_filter_set pollutant) (Pollutant r) \<and>
                              (\<not> only_anomalies \<or> is_anomaly r = 1)) (rows df)) \<and>
      data (measurements df country f only_anomalies k) =
        head k (filter (\<lambda>r. spec_in (spec_filter_set country) (Country_Label r) \<and>
                              (\<not> only_anomalies \<or> is_anomaly r = 1)) (rows df)) \<and>
      data (measurements df f f False k) = head k (rows df))"
proof -
  have 1: "\<exists>ts. join (CHR '','') ts = s \<and> (\<forall>t \<in> set ts. CHR '','' \<notin> set t) \<and>
         parse_filter s = filter (\<lambda>u. u \<noteq> []) (map strip ts)"
    using join_split [of "CHR '',''" s] split_no_sep [of _ "CHR '',''" s] parse_filter_map [of s]
    by blast
  have 2: "\<forall>t. \<exists>a b. t = a @ strip t @ b \<and> list_all isspace a \<and> list_all isspace b"
    using strip_decompose by blast
  have 3: "\<forall>u \<in> set (parse_filter s). u \<noteq> [] \<and> \<not> isspace (hd u) \<and> \<not> isspace (last u)"
    using strip_ends by (auto simp: parse_filter_map)
  have 4: "parse_filter ''India, United States'' = [''India'', ''United States'']"
    by (simp add: parse_filter_def strip_def isspace_def Let_def)
  have n: "spec_filter_set f = None" if "f = None \<or> f = Some []"
    using that by (auto simp: spec_filter_set_def)
  have 5: "data (measurements df f pollutant only_anomalies k) =
        head k (filter (\<lambda>r. spec_in (spec_filter_set pollutant) (Pollutant r) \<and>
                              (\<not> only_anomalies \<or> is_anomaly r = 1)) (rows df))"
    if "f = None \<or> f = Some []"
    by (simp add: measurements_unfold Let_def n [OF that] spec_matches_def [abs_def] spec_in_None)
  have 6: "data (measurements df country f only_anomalies k) =
        head k (filter (\<lambda>r. spec_in (spec_filter_set country) (Country_Label r) \<and>
                              (\<not> only_anomalies \<or> is_anomaly r = 1)) (rows df))"
    if "f = None \<or> f = Some []"
    by (simp add: measurements_unfold Let_def n [OF that] spec_matches_def [abs_def] spec_in_None)
  have 7: "data (measurements df f f False k) = head k (rows df)"
    if "f = None \<or> f = Some []"
    by (simp add: measurements_unfold Let_def n [OF that] spec_matches_def [abs_def] spec_in_None)
  from 1 2 3 4 5 6 7 show ?thesis by blast
qed

text \<open>A string with blanks and empty tokens, and empty filter strings on the example.\<close>

theorem parse_filter_tokens_witness:
  "parse_filter '' a ,, b,'' = [''a'', ''b''] \<and>
   hd (parse_filter '' a ,, b,'') \<noteq> [] \<and>
   map Value (data (measurements example_dataset (Some []) (Some ''pm25'') False 10)) =
     [Some 1, Some 3, Some 5, Some 100] \<and>
   data (measurements example_dataset (Some []) (Some []) False 10) = rows example_dataset"
proof -
  have p: "parse_filter '' a ,, b,'' = [''a'', ''b'']"
    by (simp add: parse_filter_def strip_def isspace_def Let_def)
  have h: "head 10 (rows example_dataset) = rows example_dataset"
    by (simp add: head_def example_dataset_def)
  have m: "filter (\<lambda>r. spec_in (spec_filter_set (Some ''pm25'')) (Pollutant r) \<and>
                        (\<not> False \<or> is_anomaly r = 1)) (rows example_dataset) =
           [rows example_dataset ! 0, rows example_dataset ! 2, rows example_dataset ! 4,
            rows example_dataset ! 5]"
    by (simp add: spec_in_def spec_filter_set_def parse_example
          example_dataset_def label_simps mk_row_def row_of_value_def)
  have v: "map Value (head 10 [rows example_dataset ! 0, rows example_dataset ! 2,
                               rows example_dataset ! 4, rows example_dataset ! 5]) =
           [Some 1, Some 3, Some 5, Some 100]"
    by (simp add: head_def example_dataset_def label_simps mk_row_def row_of_value_def)
  note t = parse_filter_tokens [of "'' a ,, b,''" "Some []" example_dataset "Some ''pm25''" False 10 "Some []"]
  from t have "\<forall>u \<in> set (parse_filter '' a ,, b,''). u \<noteq> []" by blast
  then have a: "hd (parse_filter '' a ,, b,'') \<noteq> []" unfolding p by simp
  from t have "data (measurements example_dataset (Some []) (Some ''pm25'') False 10) =
     head 10 (filter (\<lambda>r. spec_in (spec_filter_set (Some ''pm25'')) (Pollutant r) \<and>
                        (\<not> False \<or> is_anomaly r = 1)) (rows example_dataset))"
    by blast
  then have b: "map Value (data (measurements example_dataset (Some []) (Some ''pm25'') False 10)) =
     [Some 1, Some 3, Some 5, Some 100]"
    unfolding m using v by simp
  from t have "data (measurements example_dataset (Some []) (Some []) False 10) =
     head 10 (rows example_dataset)"
    by blast
  then have c: "data (measurements example_dataset (Some []) (Some []) False 10) =
     rows example_dataset"
    unfolding h .
  from p a b c show ?thesis by blast
qed

lemma load_missing:
  assumes "missing_logical (resolve (map normalize_column (original_cols t))) \<noteq> []"
  shows "load_and_prepare_data (Table t) =
           Inl (ValueError_schema
                  (missing_logical (resolve (map normalize_column (original_cols t))))
                  (map normalize_column (original_cols t))
                  (original_cols t))"
  using assms unfolding load_and_prepare_data_def csv_file.case Let_def
  by (simp only: if_True simp_thms)

lemma spec_unresolved_examples:
  "spec_unresolved [''country_code'', ''city'', ''location'', ''longitude'', ''parameter'',
      ''unit'', ''value'', ''last_updated'', ''country''] = [''latitude'']"
  "spec_unresolved [''country_code'', ''city'', ''location'', ''lat'', ''parameter'',
      ''unit'', ''value'', ''last_updated'', ''country''] = [''longitude'']"
  "spec_unresolved [''country_code'', ''city'', ''location'', ''lat'', ''longitude'', ''parameter'',
      ''unit'', ''last_updated'', ''country''] = [''value'']"
  by (simp_all add: spec_unresolved_def spec_required_fields_def)

lemma error_names_examples:
  "error_names [''latitude''] = [''Latitude/Longitude'']"
  "error_names [''longitude''] = [''Latitude/Longitude'']"
  "error_names [''value''] = [''Value'']"
  by (simp_all add: error_names_def error_name_def)

text \<open>
  Claim C5, as the code names the fields. When a required logical field is not resolved
  among the normalised headers, the load of the table fails with the schema error that
  lists, in order, each unresolved field among the first eight by its canonical name and
  then one combined entry for latitude and longitude when either is unresolved, together
  with all normalised headers and all original headers. No table is returned.
\<close>

theorem load_schema_error:
  assumes "spec_unresolved (map normalize_column (original_cols t)) \<noteq> []"
  shows "load_and_prepare_data (Table t) =
           Inl (ValueError_schema
                  (error_names (spec_unresolved (map normalize_column (original_cols t))))
                  (map normalize_column (original_cols t))
                  (original_cols t))"
proof -
  have "missing_logical (resolve (map normalize_column (original_cols t))) \<noteq> []"
    using assms by (simp only: missing_logical_spec error_names_Nil not_False_eq_True)
  from load_missing [OF this] show ?thesis
    by (simp only: missing_logical_spec)
qed

text \<open>A table without a value column.\<close>

theorem load_schema_error_witness:
  "spec_unresolved (map normalize_column (original_cols (header_without ''Value''))) = [''value''] \<and>
   load_and_prepare_data (Table (header_without ''Value'')) =
     Inl (ValueError_schema [''Value'']
            [''country_code'', ''city'', ''location'', ''lat'', ''longitude'', ''parameter'',
             ''unit'', ''last_updated'', ''country'']
            [''Country Code'', ''City'', '' Location'', ''Lat'', ''Longitude'', ''PARAMETER'',
             ''Unit'', ''Last  Updated'', ''Country''])"
proof -
  have u: "spec_unresolved (map normalize_column (original_cols (header_without ''Value''))) =
           [''value'']"
    by (simp only: normalize_examples spec_unresolved_examples)
  then have "spec_unresolved (map normalize_column (original_cols (header_without ''Value''))) \<noteq> []"
    by simp
  from load_schema_error [OF this] have l: "load_and_prepare_data (Table (header_without ''Value'')) =
     Inl (ValueError_schema [''Value'']
            (map normalize_column (original_cols (header_without ''Value'')))
            (original_cols (header_without ''Value'')))"
    by (simp only: u error_names_examples)
  have o: "original_cols (header_without ''Value'') =
     [''Country Code'', ''City'', '' Location'', ''Lat'', ''Longitude'', ''PARAMETER'',
      ''Unit'', ''Last  Updated'', ''Country'']"
    by (simp add: header_without_def)
  from l have "load_and_prepare_data (Table (header_without ''Value'')) =
     Inl (ValueError_schema [''Value'']
            [''country_code'', ''city'', ''location'', ''lat'', ''longitude'', ''parameter'',
             ''unit'', ''last_updated'', ''country'']
            [''Country Code'', ''City'', '' Location'', ''Lat'', ''Longitude'', ''PARAMETER'',
             ''Unit'', ''Last  Updated'', ''Country''])"
    unfolding normalize_examples unfolding o .
  with u show ?thesis by (intro conjI)
qed

text \<open>
  A table that lacks only the latitude and a table that lacks only the longitude fail
  with the same list of missing fields, the single entry \<open>Latitude/Longitude\<close>: the error
  does not tell which of the two logical fields is missing.
\<close>

theorem load_schema_error_counterexample:
  "spec_unresolved (map normalize_column (original_cols (header_without ''Lat''))) =
     [''latitude''] \<and>
   spec_unresolved (map normalize_column (original_cols (header_without ''Longitude''))) =
     [''longitude''] \<and>
   load_and_prepare_data (Table (header_without ''Lat'')) =
     Inl (ValueError_schema [''Latitude/Longitude'']
            (map normalize_column (original_cols (header_without ''Lat'')))
            (original_cols (header_without ''Lat''))) \<and>
   load_and_prepare_data (Table (header_without ''Longitude'')) =
     Inl (ValueError_schema [''Latitude/Longitude'']
            (map normalize_column (original_cols (header_without ''Longitude'')))
            (original_cols (header_without ''Longitude'')))"
proof -
  have a: "spec_unresolved (map normalize_column (original_cols (header_without ''Lat''))) =
     [''latitude'']"
    by (simp only: normalize_examples spec_unresolved_examples)
  have b: "spec_unresolved (map normalize_column (original_cols (header_without ''Longitude''))) =
     [''longitude'']"
    by (simp only: normalize_examples spec_unresolved_examples)
  have ma: "missing_logical (resolve (map normalize_column (original_cols (header_without ''Lat''))))
            = [''Latitude/Longitude'']"
    by (simp only: missing_logical_spec a error_names_examples)
  have mb: "missing_logical (resolve (map normalize_column (original_cols (header_without ''Longitude''))))
            = [''Latitude/Longitude'']"
    by (simp only: missing_logical_spec b error_names_examples)
  have "missing_logical (resolve (map normalize_column (original_cols (header_without ''Lat'')))) \<noteq> []"
    unfolding ma by simp
  from load_missing [OF this] have c: "load_and_prepare_data (Table (header_without ''Lat'')) =
     Inl (ValueError_schema [''Latitude/Longitude'']
            (map normalize_column (original_cols (header_without ''Lat'')))
            (original_cols (header_without ''Lat'')))"
    unfolding ma .
  have "missing_logical (resolve (map normalize_column (original_cols (header_without ''Longitude'')))) \<noteq> []"
    unfolding mb by simp
  from load_missing [OF this] have d: "load_and_prepare_data (Table (header_without ''Longitude'')) =
     Inl (ValueError_schema [''Latitude/Longitude'']
            (map normalize_column (original_cols (header_without ''Longitude'')))
            (original_cols (header_without ''Longitude'')))"
    unfolding mb .
  from a b c d show ?thesis by (intro conjI)
qed

text \<open>
  Claim C8. While the store holds no dataset, \<open>get_df\<close> and each of the three queries
  call the loader exactly once. When the load fails, the error is the result of \<open>get_df\<close>
  and of each of the three queries, and the store still holds no dataset; the same failure
  at start-up leaves the store empty. When the load succeeds, \<open>get_df\<close> returns the loaded
  dataset and publishes it, and each query answers from that dataset and publishes it. A
  dataset is returned or stored only when it is the result of a successful load.
\<close>

theorem get_df_unloaded:
  assumes "state_df st = None"
  shows "load_calls (snd (get_df file st)) = load_calls st + 1 \<and>
         load_calls (snd (filters file st)) = load_calls st + 1 \<and>
         load_calls (snd (map_data file st country pollutant only_anomalies limit)) =
           load_calls st + 1 \<and>
         load_calls (snd (summary file st)) = load_calls st + 1 \<and>
         (\<forall>e. load_and_prepare_data file = Inl e \<longrightarrow>
            get_df file st = (Inl e, st\<lparr>load_calls := load_calls st + 1\<rparr>) \<and>
            filters file st = (Inl e, st\<lparr>load_calls := load_calls st + 1\<rparr>) \<and>
            map_data file st country pollutant only_anomalies limit =
              (Inl e, st\<lparr>load_calls := load_calls st + 1\<rparr>) \<and>
            summary file st = (Inl e, st\<lparr>load_calls := load_calls st + 1\<rparr>) \<and>
            state_df (st\<lparr>load_calls := load_calls st + 1\<rparr>) = None \<and>
            state_df (startup_event file st) = None) \<and>
         (\<forall>d. load_and_prepare_data file = Inr d \<longrightarrow>
            get_df file st = (Inr d, \<lparr>state_df = Some d, load_calls = load_calls st + 1\<rparr>) \<and>
            filters file st =
              (filters_on d, \<lparr>state_df = Some d, load_calls = load_calls st + 1\<rparr>) \<and>
            map_data file st country pollutant only_anomalies limit =
              (map_data_on d country pollutant only_anomalies limit,
               \<lparr>state_df = Some d, load_calls = load_calls st + 1\<rparr>) \<and>
            summary file st =
              (summary_on d, \<lparr>state_df = Some d, load_calls = load_calls st + 1\<rparr>)) \<and>
         (\<forall>d. fst (get_df file st) = Inr d \<or> state_df (snd (get_df file st)) = Some d \<longrightarrow>
            load_and_prepare_data file = Inr d \<and>
            fst (get_df file st) = Inr d \<and> state_df (snd (get_df file st)) = Some d)"
  using assms
  by (cases "load_and_prepare_data file")
     (simp_all add: get_df_def filters_def map_data_def summary_def startup_event_def)

text \<open>
  Queries on the empty store when the CSV file is missing, and when it is the two-row
  example file.
\<close>

theorem get_df_unloaded_witness:
  "state_df \<lparr>state_df = None, load_calls = 0\<rparr> = None \<and>
   load_and_prepare_data Missing = Inl FileNotFoundError \<and>
   get_df Missing \<lparr>state_df = None, load_calls = 0\<rparr> =
     (Inl FileNotFoundError, \<lparr>state_df = None, load_calls = 1\<rparr>) \<and>
   summary Missing \<lparr>state_df = None, load_calls = 0\<rparr> =
     (Inl FileNotFoundError, \<lparr>state_df = None, load_calls = 1\<rparr>) \<and>
   load_calls (snd (map_data Missing \<lparr>state_df = None, load_calls = 0\<rparr> None None False 10)) = 1 \<and>
   (\<exists>d. load_and_prepare_data (Table example_csv) = Inr d \<and>
        get_df (Table example_csv) \<lparr>state_df = None, load_calls = 0\<rparr> =
          (Inr d, \<lparr>state_df = Some d, load_calls = 1\<rparr>) \<and>
        map_data (Table example_csv) \<lparr>state_df = None, load_calls = 0\<rparr> None None False 10 =
          (map_data_on d None None False 10, \<lparr>state_df = Some d, load_calls = 1\<rparr>) \<and>
        load_calls (snd (summary (Table example_csv) \<lparr>state_df = None, load_calls = 0\<rparr>)) = 1 \<and>
        map Value (rows d) = [Some 90, None])"
proof -
  let ?st = "\<lparr>state_df = None, load_calls = 0\<rparr>"
  have s: "state_df ?st = None" by simp
  have l: "load_and_prepare_data Missing = Inl FileNotFoundError"
    by (simp add: load_and_prepare_data_def)
  have u: "load_calls ?st + 1 = 1"
    "?st\<lparr>load_calls := 1\<rparr> = \<lparr>state_df = None, load_calls = 1\<rparr>"
    by simp_all
  note missing = get_df_unloaded [of "\<lparr>state_df = None, load_calls = 0\<rparr>" Missing None None False 10,
      OF s]
  note failing = missing [THEN conjunct2, THEN conjunct2, THEN conjunct2, THEN conjunct2,
      THEN conjunct1, rule_format, OF l, unfolded u]
  note a1 = failing [THEN conjunct1]
  note a2 = failing [THEN conjunct2, THEN conjunct2, THEN conjunct2, THEN conjunct1]
  note a3 = missing [THEN conjunct2, THEN conjunct2, THEN conjunct1, unfolded u]
  from load_example_csv obtain d
    where dd: "load_and_prepare_data (Table example_csv) = Inr d \<and>
       map Country_Label (rows d) = [Some ''India'', Some ''United States''] \<and>
       map Source_Name (rows d) = [Some ''Unknown Source'', Some ''Unknown Source''] \<and>
       map Value (rows d) = [Some 90, None] \<and>
       map lon (rows d) = [Some 77.2, None] \<and>
       map is_anomaly (rows d) = [0, 0]" ..
  note d = dd [THEN conjunct1] dd [THEN conjunct2, THEN conjunct2, THEN conjunct2, THEN conjunct1]
  note loading = get_df_unloaded [of "\<lparr>state_df = None, load_calls = 0\<rparr>" "Table example_csv"
      None None False 10, OF s]
  note loaded = loading [THEN conjunct2, THEN conjunct2, THEN conjunct2, THEN conjunct2,
      THEN conjunct2, THEN conjunct1, rule_format, OF d(1), unfolded u]
  note g1 = loaded [THEN conjunct1]
  note g2 = loaded [THEN conjunct2, THEN conjunct2, THEN conjunct1]
  note g3 = loading [THEN conjunct2, THEN conjunct2, THEN conjunct2, THEN conjunct1, unfolded u]
  have b: "\<exists>d. load_and_prepare_data (Table example_csv) = Inr d \<and>
        get_df (Table example_csv) ?st = (Inr d, \<lparr>state_df = Some d, load_calls = 1\<rparr>) \<and>
        map_data (Table example_csv) ?st None None False 10 =
          (map_data_on d None None False 10, \<lparr>state_df = Some d, load_calls = 1\<rparr>) \<and>
        load_calls (snd (summary (Table example_csv) ?st)) = 1 \<and>
        map Value (rows d) = [Some 90, None]"
    by (rule exI [of _ d]) (intro conjI d g1 g2 g3)
  from s l a1 a2 a3 b show ?thesis by (intro conjI)
qed




lemma load_is_detect:
  assumes "load_and_prepare_data file = Inr d"
  shows "\<exists>df. detect_anomalies df = Inr d"
proof (cases "file")
  case Missing
  with assms show ?thesis by (simp add: load_and_prepare_data_def)
next
  case Unreadable
  with assms show ?thesis by (simp add: load_and_prepare_data_def)
next
  case (Table t)
  with assms show ?thesis
    unfolding load_and_prepare_data_def csv_file.case Let_def
    by (simp split: if_splits prod.splits) blast+
qed

text \<open>
  Claim C2. Every record of a dataset that the detector produces, and so of every dataset
  that the loader returns, has \<open>is_anomaly\<close> equal to \<open>0\<close> or \<open>1\<close>, a score that is not
  negative, and a score of \<open>0\<close> whenever \<open>is_anomaly\<close> is \<open>0\<close>.
\<close>

theorem detect_anomalies_invariant:
  assumes "detect_anomalies df = Inr out \<or> load_and_prepare_data file = Inr out"
    and "r \<in> set (rows out)"
  shows "(is_anomaly r = 0 \<or> is_anomaly r = 1) \<and> 0 \<le> anomaly_score r \<and>
         (is_anomaly r = 0 \<longrightarrow> anomaly_score r = 0)"
proof -
  from assms(1) have "\<exists>df'. detect_anomalies df' = Inr out"
  proof
    assume "detect_anomalies df = Inr out"
    then show ?thesis ..
  next
    assume "load_and_prepare_data file = Inr out"
    then show ?thesis by (rule load_is_detect)
  qed
  then obtain df' where d: "detect_anomalies df' = Inr out" ..
  show ?thesis
    using assms(2) unfolding detect_anomalies_rows [OF d]
    by (auto simp: Let_def label_simps is_anomaly_of_def score_of_def
          split: if_splits option.splits)
qed

text \<open>The last record of the detector's output on \<open>[1, 2, 3, 4, 5, 100]\<close>, and the last
  record of the dataset loaded from the example CSV table.\<close>

theorem detect_anomalies_invariant_witness:
  "(\<exists>out. detect_anomalies (frame_of_values [Some 1, Some 2, Some 3, Some 4, Some 5, Some 100])
            = Inr out \<and>
         last (rows out) \<in> set (rows out) \<and>
         (is_anomaly (last (rows out)) = 0 \<or> is_anomaly (last (rows out)) = 1) \<and>
         0 \<le> anomaly_score (last (rows out))) \<and>
   (\<exists>out. load_and_prepare_data (Table example_csv) = Inr out \<and>
         last (rows out) \<in> set (rows out) \<and>
         (is_anomaly (last (rows out)) = 0 \<or> is_anomaly (last (rows out)) = 1) \<and>
         0 \<le> anomaly_score (last (rows out)))"
proof -
  let ?df = "frame_of_values [Some 1, Some 2, Some 3, Some 4, Some 5, Some 100]"
  have "\<exists>out. detect_anomalies ?df = Inr out"
    by (simp add: detect_anomalies_def example_frame Let_def)
  then obtain out where o: "detect_anomalies ?df = Inr out" ..
  have "rows out \<noteq> []"
    using detect_anomalies_rows [OF o] by (simp add: example_frame Let_def)
  then have m: "last (rows out) \<in> set (rows out)" by simp
  from o have "detect_anomalies ?df = Inr out \<or> load_and_prepare_data Missing = Inr out" ..
  from detect_anomalies_invariant [OF this m]
  have i: "(is_anomaly (last (rows out)) = 0 \<or> is_anomaly (last (rows out)) = 1) \<and>
           0 \<le> anomaly_score (last (rows out))"
    by (elim conjE) (intro conjI)
  have a: "\<exists>out. detect_anomalies ?df = Inr out \<and> last (rows out) \<in> set (rows out) \<and>
         (is_anomaly (last (rows out)) = 0 \<or> is_anomaly (last (rows out)) = 1) \<and>
         0 \<le> anomaly_score (last (rows out))"
    by (rule exI [of _ out]) (intro conjI o m i [THEN conjunct1] i [THEN conjunct2])
  from load_example_csv obtain d
    where dd: "load_and_prepare_data (Table example_csv) = Inr d \<and>
       map Country_Label (rows d) = [Some ''India'', Some ''United States''] \<and>
       map Source_Name (rows d) = [Some ''Unknown Source'', Some ''Unknown Source''] \<and>
       map Value (rows d) = [Some 90, None] \<and>
       map lon (rows d) = [Some 77.2, None] \<and>
       map is_anomaly (rows d) = [0, 0]" ..
  note l = dd [THEN conjunct1]
  have "rows d \<noteq> []"
    using dd [THEN conjunct2, THEN conjunct1] by auto
  then have n: "last (rows d) \<in> set (rows d)" by simp
  from l have "detect_anomalies ?df = Inr d \<or> load_and_prepare_data (Table example_csv) = Inr d" ..
  from detect_anomalies_invariant [OF this n]
  have j: "(is_anomaly (last (rows d)) = 0 \<or> is_anomaly (last (rows d)) = 1) \<and>
           0 \<le> anomaly_score (last (rows d))"
    by (elim conjE) (intro conjI)
  have b: "\<exists>out. load_and_prepare_data (Table example_csv) = Inr out \<and>
         last (rows out) \<in> set (rows out) \<and>
         (is_anomaly (last (rows out)) = 0 \<or> is_anomaly (last (rows out)) = 1) \<and>
         0 \<le> anomaly_score (last (rows out))"
    by (rule exI [of _ d]) (intro conjI l n j [THEN conjunct1] j [THEN conjunct2])
  from a b show ?thesis ..
qed

end
